theory Spec2Isabelle
  imports
    Main
    "HOL-Library.Word"
    "HOL-Library.Sublist"
    "HOL-Library.Char_ord"
    "HOL-Library.List_Lexorder"
begin

section \<open>JavaScript values\<close>

text \<open>
  A JavaScript string is a sequence of UTF-16 code units and \<^verbatim>\<open>.length\<close> counts them.
  Message texts and generated fragments are modelled as such. Identifiers, timestamps and
  error messages are only compared, ordered and searched for ASCII patterns, and are
  modelled as HOL strings (ordered lexicographically, as SQLite compares TEXT).
\<close>

type_synonym utf16 = "16 word list"

definition ascii :: "string \<Rightarrow> utf16" where
  "ascii s = map of_char s"

text \<open>
  A thrown value: an \<^verbatim>\<open>Error\<close> object with its message, or anything else.
\<close>

datatype thrown = JsError string | NonError

text \<open>
  \<^verbatim>\<open>error instanceof Error ? error : new Error('Unknown error')\<close>, then \<^verbatim>\<open>.message\<close>.
\<close>

definition err_message :: "thrown \<Rightarrow> string" where
  "err_message error = (case error of JsError m \<Rightarrow> m | NonError \<Rightarrow> ''Unknown error'')"

text \<open>\<^verbatim>\<open>String.prototype.includes\<close>: the pattern occurs as a contiguous substring.\<close>

fun str_includes :: "string \<Rightarrow> string \<Rightarrow> bool" where
  "str_includes [] pat = (pat = [])"
| "str_includes (c # cs) pat = (prefix pat (c # cs) \<or> str_includes cs pat)"

section \<open>The generation client (openai-stream.ts)\<close>

datatype chat_role = System | User | Assistant

record chat_message =
  role :: chat_role
  content :: utf16

record StreamOptions =
  instructions :: "utf16 option"
  conversationHistory :: "chat_message list option"

definition DEFAULT_INSTRUCTIONS :: utf16 where
  "DEFAULT_INSTRUCTIONS = ascii
     (''You are a helpful AI assistant for a construction document management platform called Muro.\<newline>'' @
      ''You help users analyze construction documents, compare bids, review specifications, and answer questions about their projects.\<newline>'' @
      ''Keep responses concise but informative. Use markdown formatting when helpful (bullet points, bold for emphasis).\<newline>'' @
      ''If you don't have enough context to answer a question, ask for clarification.'')"

text \<open>
  What the provider does with one streaming request, as the client observes it: the
  \<^verbatim>\<open>create\<close> call throws, stays pending forever, or resolves to a stream that yields
  finitely many chunks and then ends, throws, or stays pending forever. While an await
  stays pending the body is never resumed. Of each chunk only
  \<^verbatim>\<open>chunk.choices[0]?.delta?.content\<close> is read: \<open>None\<close> stands for undefined or null.
\<close>

type_synonym delta = "utf16 option"

datatype stream_end = Exhausted | StreamThrows thrown | StreamPending

datatype completion = CreateThrows thrown | CreateOk "delta list" stream_end | CreatePending

text \<open>
  The flag \<^verbatim>\<open>cancelled\<close> is set by the returned cleanup function and never reset. The
  body only suspends at its awaits: await 0 is the \<^verbatim>\<open>create\<close> call, await \<open>t \<ge> 1\<close> is the
  \<open>t\<close>-th \<^verbatim>\<open>next()\<close> of the \<^verbatim>\<open>for await\<close> loop. \<open>cancel_at = Some k\<close> says that the cleanup
  function is first invoked while await \<open>k\<close> is pending; \<open>None\<close> that it is never invoked.
\<close>

definition cancelled :: "nat option \<Rightarrow> nat \<Rightarrow> bool" where
  "cancelled cancel_at t = (case cancel_at of None \<Rightarrow> False | Some k \<Rightarrow> k \<le> t)"

text \<open>
  A callback changes the caller's state and may throw. The loop leaves either normally
  (stream exhausted, or \<^verbatim>\<open>break\<close>) or by an exception; both carry the value of
  \<^verbatim>\<open>cancelled\<close> at that moment. Or it is never left, its last await staying pending.
\<close>

datatype 's loop_exit = LoopEnd bool utf16 's | LoopThrew bool thrown 's | LoopPending 's

fun stream_loop ::
  "(utf16 \<Rightarrow> 's \<Rightarrow> 's \<times> thrown option) \<Rightarrow> nat option \<Rightarrow> nat \<Rightarrow> delta list \<Rightarrow> stream_end
     \<Rightarrow> utf16 \<Rightarrow> 's \<Rightarrow> 's loop_exit" where
  "stream_loop onChunk cancel_at t [] fin fullText s =
     (case fin of
        Exhausted \<Rightarrow> LoopEnd (cancelled cancel_at t) fullText s
      | StreamThrows e \<Rightarrow> LoopThrew (cancelled cancel_at t) e s
      | StreamPending \<Rightarrow> LoopPending s)"
| "stream_loop onChunk cancel_at t (d # ds) fin fullText s =
     (if cancelled cancel_at t then LoopEnd True fullText s
      else
        (case d of
           Some (c # cs) \<Rightarrow>
             (case onChunk (c # cs) s of
                (s', Some e) \<Rightarrow> LoopThrew False e s'
              | (s', None) \<Rightarrow> stream_loop onChunk cancel_at (Suc t) ds fin (fullText @ c # cs) s')
         | _ \<Rightarrow> stream_loop onChunk cancel_at (Suc t) ds fin fullText s))"

text \<open>The chain of tests on \<^verbatim>\<open>err.message\<close> in the catch block.\<close>

definition friendly_message :: "string \<Rightarrow> string" where
  "friendly_message message =
     (if str_includes message ''API key'' then ''AI service configuration error. Please contact support.''
      else if str_includes message ''rate limit'' then ''AI service is busy. Please try again in a moment.''
      else if str_includes message ''insufficient_quota'' then ''AI service quota exceeded. Please contact support.''
      else ''AI service temporarily unavailable. Please try again.'')"

text \<open>
  The catch block. Its result is the state and the exception that leaves the async body
  (an unhandled rejection), if any.
\<close>

definition catch_block ::
  "(string \<Rightarrow> 's \<Rightarrow> 's) \<Rightarrow> (string \<Rightarrow> 's \<Rightarrow> 's \<times> thrown option) \<Rightarrow> bool \<Rightarrow> thrown \<Rightarrow> 's
     \<Rightarrow> 's \<times> thrown option" where
  "catch_block console_error onError is_cancelled error s =
     (if is_cancelled then (s, None)
      else
        (let message = err_message error;
             s1 = console_error message s
         in onError (friendly_message message) s1))"

definition build_messages :: "utf16 \<Rightarrow> chat_message list \<Rightarrow> utf16 \<Rightarrow> chat_message list" where
  "build_messages instr history userMessage =
     \<lparr>role = System, content = instr\<rparr>
       # map (\<lambda>msg. \<lparr>role = role msg, content = content msg\<rparr>) history
       @ [\<lparr>role = User, content = userMessage\<rparr>]"

text \<open>
  \<^verbatim>\<open>createAIStream\<close>. The globals \<^verbatim>\<open>console\<close> and \<^verbatim>\<open>openai\<close> are parameters: \<open>console_error\<close>
  records the line \<^verbatim>\<open>OpenAI API error: <message>\<close>, \<open>openai\<close> answers a prompt with the
  provider's behaviour.
\<close>

definition createAIStream ::
  "(string \<Rightarrow> 's \<Rightarrow> 's) \<Rightarrow> (chat_message list \<Rightarrow> completion) \<Rightarrow> utf16
     \<Rightarrow> (utf16 \<Rightarrow> 's \<Rightarrow> 's \<times> thrown option)
     \<Rightarrow> (string \<Rightarrow> 's \<Rightarrow> 's \<times> thrown option)
     \<Rightarrow> (utf16 \<Rightarrow> 's \<Rightarrow> 's \<times> thrown option)
     \<Rightarrow> StreamOptions \<Rightarrow> nat option \<Rightarrow> 's \<Rightarrow> 's \<times> thrown option" where
  "createAIStream console_error openai userMessage onChunk onError onDone options cancel_at s =
     (let instr = (case instructions options of None \<Rightarrow> DEFAULT_INSTRUCTIONS | Some i \<Rightarrow> i);
          history = (case conversationHistory options of None \<Rightarrow> [] | Some h \<Rightarrow> h);
          messages = build_messages instr history userMessage
      in
        (case openai messages of
           CreateThrows e \<Rightarrow> catch_block console_error onError (cancelled cancel_at 0) e s
         | CreatePending \<Rightarrow> (s, None)
         | CreateOk deltas fin \<Rightarrow>
             if cancelled cancel_at 0 then (s, None)
             else
               (case stream_loop onChunk cancel_at 1 deltas fin [] s of
                  LoopThrew c e s' \<Rightarrow> catch_block console_error onError c e s'
                | LoopPending s' \<Rightarrow> (s', None)
                | LoopEnd c fullText s' \<Rightarrow>
                    if \<not> c then
                      if fullText = [] then
                        catch_block console_error onError c (JsError ''No response from AI'') s'
                      else
                        (case onDone fullText s' of
                           (s'', Some e) \<Rightarrow> catch_block console_error onError c e s''
                         | (s'', None) \<Rightarrow> (s'', None))
                    else (s', None))))"

subsection \<open>Observing the callbacks\<close>

text \<open>
  To speak about which callbacks fire, any callback is wrapped so that each call is
  appended to a trace kept beside the caller's state.
\<close>

datatype call = OnChunk utf16 | OnError string | OnDone utf16

definition traced ::
  "('a \<Rightarrow> call) \<Rightarrow> ('a \<Rightarrow> 's \<Rightarrow> 's \<times> thrown option) \<Rightarrow> 'a \<Rightarrow> call list \<times> 's
     \<Rightarrow> (call list \<times> 's) \<times> thrown option" where
  "traced tag cb x ts = (case cb x (snd ts) of (s', e) \<Rightarrow> ((fst ts @ [tag x], s'), e))"

definition untraced :: "(string \<Rightarrow> 's \<Rightarrow> 's) \<Rightarrow> string \<Rightarrow> call list \<times> 's \<Rightarrow> call list \<times> 's" where
  "untraced console_error m ts = (fst ts, console_error m (snd ts))"

definition calls_of ::
  "(string \<Rightarrow> 's \<Rightarrow> 's) \<Rightarrow> (chat_message list \<Rightarrow> completion) \<Rightarrow> utf16
     \<Rightarrow> (utf16 \<Rightarrow> 's \<Rightarrow> 's \<times> thrown option)
     \<Rightarrow> (string \<Rightarrow> 's \<Rightarrow> 's \<times> thrown option)
     \<Rightarrow> (utf16 \<Rightarrow> 's \<Rightarrow> 's \<times> thrown option)
     \<Rightarrow> StreamOptions \<Rightarrow> nat option \<Rightarrow> 's \<Rightarrow> call list" where
  "calls_of console_error openai userMessage onChunk onError onDone options cancel_at s =
     fst (fst (createAIStream (untraced console_error) openai userMessage
       (traced OnChunk onChunk) (traced OnError onError) (traced OnDone onDone)
       options cancel_at ([], s)))"

text \<open>The fragments of a stream: the chunk contents that are truthy (non-empty strings).\<close>

fun fragments :: "delta list \<Rightarrow> utf16 list" where
  "fragments [] = []"
| "fragments (Some (c # cs) # ds) = (c # cs) # fragments ds"
| "fragments (_ # ds) = fragments ds"

section \<open>The storage (better-sqlite3 over SQLite)\<close>

text \<open>
  The module that opens the database and creates the schema is not among the sources; the
  tables are read off the statements of the routes:
  \<^verbatim>\<open>conversations(id, title, created_at, updated_at)\<close> and
  \<^verbatim>\<open>messages(id, conversation_id, role, content, status, error_message, created_at)\<close>.
  A table is the list of its rows in rowid order; a new row gets the largest rowid plus one.
  \<open>last_insert_rowid\<close> is the connection's record of the last inserted row, which every
  \<^verbatim>\<open>stmt.run\<close> reports as \<^verbatim>\<open>lastInsertRowid\<close>.
\<close>

datatype status = Sending | Sent | Failed

record conversation =
  conv_id :: string
  title :: string
  conv_created_at :: string
  updated_at :: string

record message =
  rowid :: nat
  msg_id :: string
  conversation_id :: string
  msg_role :: chat_role
  msg_content :: utf16
  status :: status
  error_message :: "string option"
  created_at :: string

record database =
  conversations :: "conversation list"
  messages :: "message list"
  last_insert_rowid :: nat

text \<open>
  \<^verbatim>\<open>stmt.get\<close> returns the first row or \<^verbatim>\<open>undefined\<close>; \<^verbatim>\<open>stmt.run\<close> always returns an info
  object. An object is truthy, \<^verbatim>\<open>undefined\<close> is not.
\<close>

datatype 'a js_result = Undefined | Object 'a

fun truthy :: "'a js_result \<Rightarrow> bool" where
  "truthy Undefined = False"
| "truthy (Object _) = True"

record run_info =
  changes :: nat
  lastInsertRowid :: nat

text \<open>\<^verbatim>\<open>SELECT id FROM conversations WHERE id = ?\<close> with \<^verbatim>\<open>.get\<close>.\<close>

definition select_conversation :: "database \<Rightarrow> string \<Rightarrow> string js_result" where
  "select_conversation d cid =
     (case filter (\<lambda>c. conv_id c = cid) (conversations d) of
        [] \<Rightarrow> Undefined
      | c # _ \<Rightarrow> Object (conv_id c))"

text \<open>
  SQLite keeps TEXT as UTF-8. better-sqlite3 encodes a bound JavaScript string with V8,
  which writes U+FFFD for every surrogate code unit that is not part of a pair (a high
  surrogate directly followed by a low one); a column read back is decoded from that
  UTF-8. \<open>store_text\<close> is the string that is read back for a string that was bound.
\<close>

definition is_high_surrogate :: "16 word \<Rightarrow> bool" where
  "is_high_surrogate c = (0xD800 \<le> c \<and> c \<le> 0xDBFF)"

definition is_low_surrogate :: "16 word \<Rightarrow> bool" where
  "is_low_surrogate c = (0xDC00 \<le> c \<and> c \<le> 0xDFFF)"

fun store_text :: "utf16 \<Rightarrow> utf16" where
  "store_text [] = []"
| "store_text [c] = (if is_high_surrogate c \<or> is_low_surrogate c then [0xFFFD] else [c])"
| "store_text (c # c' # cs) =
     (if is_high_surrogate c then
        (if is_low_surrogate c' then c # c' # store_text cs else 0xFFFD # store_text (c' # cs))
      else if is_low_surrogate c then 0xFFFD # store_text (c' # cs)
      else c # store_text (c' # cs))"

definition next_rowid :: "message list \<Rightarrow> nat" where
  "next_rowid rows = Suc (fold max (map rowid rows) 0)"

text \<open>
  \<^verbatim>\<open>INSERT INTO messages (id, conversation_id, role, content, status, created_at)\<close>:
  the column \<^verbatim>\<open>error_message\<close> is left NULL. Identifiers, roles, statuses and timestamps
  are ASCII and stored as they are.
\<close>

definition insert_message ::
  "string \<Rightarrow> string \<Rightarrow> chat_role \<Rightarrow> utf16 \<Rightarrow> status \<Rightarrow> string \<Rightarrow> database \<Rightarrow> database \<times> run_info" where
  "insert_message mid cid r c st ts d =
     (let n = next_rowid (messages d);
          row = \<lparr>rowid = n, msg_id = mid, conversation_id = cid, msg_role = r,
                 msg_content = store_text c, status = st, error_message = None, created_at = ts\<rparr>
      in (d\<lparr>messages := messages d @ [row], last_insert_rowid := n\<rparr>,
          \<lparr>changes = 1, lastInsertRowid = n\<rparr>))"

text \<open>\<^verbatim>\<open>UPDATE conversations SET updated_at = ? WHERE id = ?\<close>\<close>

definition touch_conversation :: "string \<Rightarrow> string \<Rightarrow> database \<Rightarrow> database \<times> run_info" where
  "touch_conversation ts cid d =
     (d\<lparr>conversations := map (\<lambda>c. if conv_id c = cid then c\<lparr>updated_at := ts\<rparr> else c) (conversations d)\<rparr>,
      \<lparr>changes = length (filter (\<lambda>c. conv_id c = cid) (conversations d)),
       lastInsertRowid = last_insert_rowid d\<rparr>)"

text \<open>\<^verbatim>\<open>UPDATE conversations SET title = ?, updated_at = ? WHERE id = ?\<close>\<close>

definition update_conversation :: "string \<Rightarrow> string \<Rightarrow> string \<Rightarrow> database \<Rightarrow> database \<times> run_info" where
  "update_conversation new_title ts cid d =
     (d\<lparr>conversations :=
          map (\<lambda>c. if conv_id c = cid then c\<lparr>title := new_title, updated_at := ts\<rparr> else c) (conversations d)\<rparr>,
      \<lparr>changes = length (filter (\<lambda>c. conv_id c = cid) (conversations d)),
       lastInsertRowid = last_insert_rowid d\<rparr>)"

text \<open>
  Modelled from the spec: the schema is missing, and with it the foreign key of
  \<^verbatim>\<open>messages.conversation_id\<close>; the specification says that a conversation is deleted
  together with all its messages (a cascading delete). So
  \<^verbatim>\<open>DELETE FROM conversations WHERE id = ?\<close> removes the conversation and the rows of
  \<^verbatim>\<open>messages\<close> that refer to it.
\<close>

definition delete_conversation :: "string \<Rightarrow> database \<Rightarrow> database \<times> run_info" where
  "delete_conversation cid d =
     (d\<lparr>conversations := filter (\<lambda>c. conv_id c \<noteq> cid) (conversations d),
        messages := (if cid \<in> set (map conv_id (conversations d))
                     then filter (\<lambda>m. conversation_id m \<noteq> cid) (messages d) else messages d)\<rparr>,
      \<lparr>changes = length (filter (\<lambda>c. conv_id c = cid) (conversations d)),
       lastInsertRowid = last_insert_rowid d\<rparr>)"

text \<open>
  \<^verbatim>\<open>SELECT * FROM messages WHERE conversation_id = ? ORDER BY created_at ASC\<close>.
  SQL leaves the order of rows with equal keys open. SQLite visits the rows in rowid order
  and its sorter keeps that order among equal keys; \<open>sort_key\<close> is such a stable sort.
\<close>

definition select_messages :: "database \<Rightarrow> string \<Rightarrow> message list" where
  "select_messages d cid = sort_key created_at (filter (\<lambda>m. conversation_id m = cid) (messages d))"

text \<open>
  \<^verbatim>\<open>SELECT role, content FROM messages WHERE conversation_id = ? AND id != ?
  ORDER BY created_at ASC\<close>
\<close>

definition select_history :: "database \<Rightarrow> string \<Rightarrow> string \<Rightarrow> (chat_role \<times> utf16) list" where
  "select_history d cid excluded =
     map (\<lambda>m. (msg_role m, msg_content m))
       (sort_key created_at
          (filter (\<lambda>m. conversation_id m = cid \<and> msg_id m \<noteq> excluded) (messages d)))"

text \<open>\<^verbatim>\<open>UPDATE messages SET status = ?, error_message = ? WHERE id = ?\<close>\<close>

definition update_message_error :: "status \<Rightarrow> string \<Rightarrow> string \<Rightarrow> database \<Rightarrow> database \<times> run_info" where
  "update_message_error st err mid d =
     (d\<lparr>messages :=
          map (\<lambda>m. if msg_id m = mid then m\<lparr>status := st, error_message := Some err\<rparr> else m) (messages d)\<rparr>,
      \<lparr>changes = length (filter (\<lambda>m. msg_id m = mid) (messages d)),
       lastInsertRowid = last_insert_rowid d\<rparr>)"

text \<open>\<^verbatim>\<open>UPDATE messages SET content = ?, status = ? WHERE id = ?\<close>\<close>

definition update_message_content :: "utf16 \<Rightarrow> status \<Rightarrow> string \<Rightarrow> database \<Rightarrow> database \<times> run_info" where
  "update_message_content c st mid d =
     (d\<lparr>messages :=
          map (\<lambda>m. if msg_id m = mid then m\<lparr>msg_content := store_text c, status := st\<rparr> else m) (messages d)\<rparr>,
      \<lparr>changes = length (filter (\<lambda>m. msg_id m = mid) (messages d)),
       lastInsertRowid = last_insert_rowid d\<rparr>)"

text \<open>
  \<^verbatim>\<open>db.transaction(fn)()\<close>: the function runs between BEGIN and COMMIT; when it throws,
  the transaction is rolled back and the exception is thrown again. ROLLBACK restores the
  tables; the connection's last insert rowid is not part of the database file and keeps
  the value the statements of the function left.
\<close>

definition transaction ::
  "(database \<Rightarrow> database \<times> (thrown + 'a)) \<Rightarrow> database \<Rightarrow> database \<times> (thrown + 'a)" where
  "transaction fn d =
     (case fn d of
        (d', Inl e) \<Rightarrow> (d\<lparr>last_insert_rowid := last_insert_rowid d'\<rparr>, Inl e)
      | (d', Inr r) \<Rightarrow> (d', Inr r))"

section \<open>The routes (routes/chats.ts)\<close>

text \<open>
  What a request meets outside the handler's control: the two identifiers \<^verbatim>\<open>uuidv4()\<close>
  returns, the clock, the provider, and for each statement of the handlers whether
  running it throws (a busy or failing database, a violated constraint).
\<close>

datatype statement =
  SelectConversation | InsertUser | InsertAssistant | TouchConversation | SelectHistory
  | UpdateFailed | UpdateSent | UpdateTitle | DeleteConversation | SelectMessages

record env =
  uuid1 :: string
  uuid2 :: string
  now :: string
  fault :: "statement \<Rightarrow> thrown option"
  openai :: "chat_message list \<Rightarrow> completion"

text \<open>
  The response. An SSE frame is written by two \<^verbatim>\<open>res.write\<close> calls, the event name and the
  JSON data line; the pair is one \<open>sse_event\<close> holding the payload.
\<close>

datatype sse_event = ChunkEvent utf16 | ErrorEvent string | DoneEvent string utf16

datatype json_body = ErrorBody string | IdBody nat | RowsBody "message list"

record response =
  statusCode :: nat
  headers :: "(string \<times> string) list"
  json :: "json_body option"
  events :: "sse_event list"
  ended :: bool

definition fresh_response :: response where
  "fresh_response = \<lparr>statusCode = 200, headers = [], json = None, events = [], ended = False\<rparr>"

definition headersSent :: "response \<Rightarrow> bool" where
  "headersSent r = (json r \<noteq> None \<or> events r \<noteq> [] \<or> ended r)"

definition send_json :: "nat \<Rightarrow> json_body \<Rightarrow> response \<Rightarrow> response" where
  "send_json code body r = r\<lparr>statusCode := code, json := Some body, ended := True\<rparr>"

definition setHeader :: "string \<Rightarrow> string \<Rightarrow> response \<Rightarrow> response" where
  "setHeader name v r = r\<lparr>headers := headers r @ [(name, v)]\<rparr>"

definition write_event :: "sse_event \<Rightarrow> response \<Rightarrow> response" where
  "write_event ev r = r\<lparr>events := events r @ [ev]\<rparr>"

definition end_response :: "response \<Rightarrow> response" where
  "end_response r = r\<lparr>ended := True\<rparr>"

datatype log_entry =
  Info string | ErrorWithMessage string string | ErrorWithThrown string thrown | ConsoleError string string

record world =
  w_db :: database
  w_res :: response
  w_log :: "log_entry list"

definition log_entry :: "log_entry \<Rightarrow> world \<Rightarrow> world" where
  "log_entry l w = w\<lparr>w_log := w_log w @ [l]\<rparr>"

text \<open>\<^verbatim>\<open>console.error('OpenAI API error:', err.message)\<close>\<close>

definition console_error :: "string \<Rightarrow> world \<Rightarrow> world" where
  "console_error message w = log_entry (ConsoleError ''OpenAI API error:'' message) w"

subsection \<open>PATCH /:id, DELETE /:id, GET /:id/messages\<close>

text \<open>
  A handler returns the response, or the exception it lets through to the framework.
  The title of the PATCH body is taken to be a string.
\<close>

definition patch_chat :: "env \<Rightarrow> string \<Rightarrow> string \<Rightarrow> database \<Rightarrow> database \<times> (thrown + response)" where
  "patch_chat env cid new_title d =
     (case fault env UpdateTitle of
        Some e \<Rightarrow> (d, Inl e)
      | None \<Rightarrow>
          (case update_conversation new_title (now env) cid d of
             (d', info) \<Rightarrow>
               (let row = Object info in
                if \<not> truthy row then (d', Inr (send_json 404 (ErrorBody ''Not found'') fresh_response))
                else (d', Inr (send_json 200 (IdBody (lastInsertRowid info)) fresh_response)))))"

definition delete_chat :: "env \<Rightarrow> string \<Rightarrow> database \<Rightarrow> database \<times> (thrown + response)" where
  "delete_chat env cid d =
     (case fault env DeleteConversation of
        Some e \<Rightarrow> (d, Inl e)
      | None \<Rightarrow>
          (case delete_conversation cid d of
             (d', info) \<Rightarrow>
               (let row = Object info in
                if \<not> truthy row then (d', Inr (send_json 404 (ErrorBody ''Not found'') fresh_response))
                else (d', Inr (send_json 200 (IdBody (lastInsertRowid info)) fresh_response)))))"


subsection \<open>POST /:id/messages\<close>

text \<open>\<^verbatim>\<open>req.body.content\<close>: absent, a string, or a value of another type.\<close>

datatype body_content = Missing | Text utf16 | NotAString

text \<open>
  \<^verbatim>\<open>String.prototype.trim\<close> removes white space and line terminators from both ends.
\<close>

definition is_whitespace :: "16 word \<Rightarrow> bool" where
  "is_whitespace c =
     (c \<in> {0x0009, 0x000A, 0x000B, 0x000C, 0x000D, 0x0020, 0x00A0, 0x1680,
            0x2028, 0x2029, 0x202F, 0x205F, 0x3000, 0xFEFF}
      \<or> (0x2000 \<le> c \<and> c \<le> 0x200A))"

definition trim :: "utf16 \<Rightarrow> utf16" where
  "trim s = rev (dropWhile is_whitespace (rev (dropWhile is_whitespace s)))"

text \<open>The function handed to \<^verbatim>\<open>db.transaction\<close>.\<close>

definition setup_body ::
  "env \<Rightarrow> string \<Rightarrow> utf16 \<Rightarrow> database \<Rightarrow> database \<times> (thrown + string \<times> chat_message list)" where
  "setup_body env conversationId trimmedContent d =
     (let userMessageId = uuid1 env;
          assistantMessageId = uuid2 env;
          ts = now env
      in
        (case fault env InsertUser of
           Some e \<Rightarrow> (d, Inl e)
         | None \<Rightarrow>
             (let d1 = fst (insert_message userMessageId conversationId User trimmedContent Sent ts d) in
              (case fault env InsertAssistant of
                 Some e \<Rightarrow> (d1, Inl e)
               | None \<Rightarrow>
                   (let d2 = fst (insert_message assistantMessageId conversationId Assistant [] Sending ts d1) in
                    (case fault env TouchConversation of
                       Some e \<Rightarrow> (d2, Inl e)
                     | None \<Rightarrow>
                         (let d3 = fst (touch_conversation ts conversationId d2) in
                          (case fault env SelectHistory of
                             Some e \<Rightarrow> (d3, Inl e)
                           | None \<Rightarrow>
                               (let historyRows = select_history d3 conversationId assistantMessageId;
                                    history = map (\<lambda>row. \<lparr>role = fst row, content = snd row\<rparr>) historyRows
                                in (d3, Inr (assistantMessageId, history)))))))))))"

text \<open>The three callbacks handed to \<^verbatim>\<open>createAIStream\<close>.\<close>

definition on_chunk :: "utf16 \<Rightarrow> world \<Rightarrow> world \<times> thrown option" where
  "on_chunk chunk w = (w\<lparr>w_res := write_event (ChunkEvent chunk) (w_res w)\<rparr>, None)"

definition on_error :: "env \<Rightarrow> string \<Rightarrow> string \<Rightarrow> world \<Rightarrow> world \<times> thrown option" where
  "on_error env assistantMessageId message w =
     (let w1 = log_entry (ErrorWithMessage ''AI stream error'' message) w in
      (case fault env UpdateFailed of
         Some e \<Rightarrow> (w1, Some e)
       | None \<Rightarrow>
           (let w2 = w1\<lparr>w_db := fst (update_message_error Failed message assistantMessageId (w_db w1))\<rparr>;
                w3 = w2\<lparr>w_res := write_event (ErrorEvent message) (w_res w2)\<rparr>
            in (w3\<lparr>w_res := end_response (w_res w3)\<rparr>, None))))"

definition on_done :: "env \<Rightarrow> string \<Rightarrow> utf16 \<Rightarrow> world \<Rightarrow> world \<times> thrown option" where
  "on_done env assistantMessageId fullText w =
     (let w1 = log_entry (Info ''AI stream complete'') w in
      (case fault env UpdateSent of
         Some e \<Rightarrow> (w1, Some e)
       | None \<Rightarrow>
           (let w2 = w1\<lparr>w_db := fst (update_message_content fullText Sent assistantMessageId (w_db w1))\<rparr>;
                w3 = w2\<lparr>w_res := write_event (DoneEvent assistantMessageId fullText) (w_res w2)\<rparr>
            in (w3\<lparr>w_res := end_response (w_res w3)\<rparr>, None))))"

text \<open>
  Step 5 of the handler. The cleanup function that \<^verbatim>\<open>createAIStream\<close> returns is dropped,
  so the stream is never cancelled. The callbacks run after the handler has returned:
  what they throw is not caught by the handler's \<^verbatim>\<open>try\<close>.
\<close>

definition stream_response ::
  "env \<Rightarrow> utf16 \<Rightarrow> string \<Rightarrow> chat_message list \<Rightarrow> world \<Rightarrow> world \<times> thrown option" where
  "stream_response env trimmedContent assistantMessageId history w =
     createAIStream console_error (openai env) trimmedContent
       on_chunk (on_error env assistantMessageId) (on_done env assistantMessageId)
       \<lparr>instructions = None, conversationHistory = Some history\<rparr> None w"

text \<open>The \<^verbatim>\<open>catch\<close> of the handler.\<close>

definition post_messages_catch :: "thrown \<Rightarrow> world \<Rightarrow> world" where
  "post_messages_catch error w =
     (let w1 = log_entry (ErrorWithThrown ''Error processing message'' error) w in
      if \<not> headersSent (w_res w1) then
        w1\<lparr>w_res := send_json 500 (ErrorBody ''Failed to process message'') (w_res w1)\<rparr>
      else
        w1\<lparr>w_res := end_response (write_event (ErrorEvent ''Internal server error'') (w_res w1))\<rparr>)"

definition post_messages :: "env \<Rightarrow> string \<Rightarrow> body_content \<Rightarrow> world \<Rightarrow> world \<times> thrown option" where
  "post_messages env conversationId body w =
     (case body of
        Text (c # cs) \<Rightarrow>
          (let trimmedContent = trim (c # cs) in
           if length trimmedContent = 0 then
             (w\<lparr>w_res := send_json 400 (ErrorBody ''Message content cannot be empty'') (w_res w)\<rparr>, None)
           else if length trimmedContent > 10000 then
             (w\<lparr>w_res := send_json 400 (ErrorBody ''Message too long (max 10000 characters)'') (w_res w)\<rparr>, None)
           else
             (let w1 = log_entry (Info ''Posting new message to conversation'') w in
              (case fault env SelectConversation of
                 Some e \<Rightarrow> (post_messages_catch e w1, None)
               | None \<Rightarrow>
                   (let conversation = select_conversation (w_db w1) conversationId in
                    if \<not> truthy conversation then
                      (w1\<lparr>w_res := send_json 404 (ErrorBody ''Conversation not found'') (w_res w1)\<rparr>, None)
                    else
                      (case transaction (setup_body env conversationId trimmedContent) (w_db w1) of
                         (d, Inl e) \<Rightarrow> (post_messages_catch e (w1\<lparr>w_db := d\<rparr>), None)
                       | (d, Inr (assistantMessageId, history)) \<Rightarrow>
                           (let w2 = w1\<lparr>w_db := d\<rparr>;
                                w3 = w2\<lparr>w_res := setHeader ''Content-Type'' ''text/event-stream'' (w_res w2)\<rparr>;
                                w4 = w3\<lparr>w_res := setHeader ''Cache-Control'' ''no-cache'' (w_res w3)\<rparr>;
                                w5 = w4\<lparr>w_res := setHeader ''Connection'' ''keep-alive'' (w_res w4)\<rparr>
                            in stream_response env trimmedContent assistantMessageId history w5))))))
      | _ \<Rightarrow> (w\<lparr>w_res := send_json 400 (ErrorBody ''Message content is required'') (w_res w)\<rparr>, None))"

section \<open>Notions used in the statements\<close>

text \<open>
  A callback returns normally when it never throws; \<open>chunks_return\<close> says that the chunk
  callback, called with each of the fragments in turn from the given state, returns
  normally each time. \<open>run_chunks\<close> is the state after these calls.
\<close>

definition returns_normally :: "('a \<Rightarrow> 's \<Rightarrow> 's \<times> thrown option) \<Rightarrow> bool" where
  "returns_normally cb = (\<forall>x s. snd (cb x s) = None)"

fun chunks_return :: "(utf16 \<Rightarrow> 's \<Rightarrow> 's \<times> thrown option) \<Rightarrow> utf16 list \<Rightarrow> 's \<Rightarrow> bool" where
  "chunks_return onChunk [] s = True"
| "chunks_return onChunk (f # fs) s =
     (case onChunk f s of (s', None) \<Rightarrow> chunks_return onChunk fs s' | (s', Some e) \<Rightarrow> False)"

definition run_chunks :: "(utf16 \<Rightarrow> 's \<Rightarrow> 's \<times> thrown option) \<Rightarrow> utf16 list \<Rightarrow> 's \<Rightarrow> 's" where
  "run_chunks onChunk fs s = fold (\<lambda>x s. fst (onChunk x s)) fs s"

text \<open>
  The flag and the state with which the loop is left. A request settles when neither the
  \<^verbatim>\<open>create\<close> call nor the end of its stream stays pending. The terminal callbacks.
\<close>

fun exit_flag :: "'s loop_exit \<Rightarrow> bool" where
  "exit_flag (LoopEnd c _ _) = c"
| "exit_flag (LoopThrew c _ _) = c"
| "exit_flag (LoopPending _) = False"

fun exit_state :: "'s loop_exit \<Rightarrow> 's" where
  "exit_state (LoopEnd _ _ s) = s"
| "exit_state (LoopThrew _ _ s) = s"
| "exit_state (LoopPending s) = s"

fun settles :: "completion \<Rightarrow> bool" where
  "settles (CreateThrows _) = True"
| "settles (CreateOk _ fin) = (fin \<noteq> StreamPending)"
| "settles CreatePending = False"


text \<open>
  A concrete request context: fixed identifiers and clock, a database with one
  conversation and no message, a response nothing was written to, and the exception of a
  locked database.
\<close>

definition sample_env :: "(statement \<Rightarrow> thrown option) \<Rightarrow> (chat_message list \<Rightarrow> completion) \<Rightarrow> env" where
  "sample_env f p =
     \<lparr>uuid1 = ''u-1'', uuid2 = ''a-1'', now = ''2024-05-01T10:00:00.000Z'', fault = f, openai = p\<rparr>"

definition sample_database :: database where
  "sample_database =
     \<lparr>conversations =
        [\<lparr>conv_id = ''c-1'', title = ''New Conversation'',
          conv_created_at = ''2024-05-01T09:00:00.000Z'', updated_at = ''2024-05-01T09:00:00.000Z''\<rparr>],
      messages = [], last_insert_rowid = 0\<rparr>"

definition sample_world :: world where
  "sample_world = \<lparr>w_db = sample_database, w_res = fresh_response, w_log = []\<rparr>"

definition locked :: thrown where
  "locked = JsError ''database is locked''"

text \<open>
  The first statement of the setup transaction that throws, if any; the two rows the setup
  inserts; the database after a setup in which nothing throws, the history it reads back
  and the headers set before streaming. \<open>rowid_at_fault\<close> is the connection's last insert
  rowid at the moment a statement of the setup throws.
\<close>

definition setup_fault :: "env \<Rightarrow> thrown option" where
  "setup_fault env =
     (case fault env InsertUser of Some e \<Rightarrow> Some e | None \<Rightarrow>
      (case fault env InsertAssistant of Some e \<Rightarrow> Some e | None \<Rightarrow>
       (case fault env TouchConversation of Some e \<Rightarrow> Some e | None \<Rightarrow>
        fault env SelectHistory)))"

definition user_row :: "env \<Rightarrow> string \<Rightarrow> utf16 \<Rightarrow> database \<Rightarrow> message" where
  "user_row env cid t d =
     \<lparr>rowid = next_rowid (messages d), msg_id = uuid1 env, conversation_id = cid, msg_role = User,
      msg_content = store_text t, status = Sent, error_message = None, created_at = now env\<rparr>"

definition assistant_row :: "env \<Rightarrow> string \<Rightarrow> database \<Rightarrow> message" where
  "assistant_row env cid d =
     \<lparr>rowid = Suc (next_rowid (messages d)), msg_id = uuid2 env, conversation_id = cid,
      msg_role = Assistant, msg_content = [], status = Sending, error_message = None,
      created_at = now env\<rparr>"

definition after_setup :: "env \<Rightarrow> string \<Rightarrow> utf16 \<Rightarrow> database \<Rightarrow> database" where
  "after_setup env cid t d =
     \<lparr>conversations = map (\<lambda>c. if conv_id c = cid then c\<lparr>updated_at := now env\<rparr> else c) (conversations d),
      messages = messages d @ [user_row env cid t d, assistant_row env cid d],
      last_insert_rowid = Suc (next_rowid (messages d))\<rparr>"

definition rowid_at_fault :: "env \<Rightarrow> database \<Rightarrow> nat" where
  "rowid_at_fault env d =
     (case fault env InsertUser of Some e \<Rightarrow> last_insert_rowid d | None \<Rightarrow>
      (case fault env InsertAssistant of Some e \<Rightarrow> next_rowid (messages d) | None \<Rightarrow>
       Suc (next_rowid (messages d))))"

definition history_of :: "database \<Rightarrow> string \<Rightarrow> string \<Rightarrow> chat_message list" where
  "history_of d cid excluded =
     map (\<lambda>row. \<lparr>role = fst row, content = snd row\<rparr>) (select_history d cid excluded)"

definition stream_headers :: "(string \<times> string) list" where
  "stream_headers =
     [(''Content-Type'', ''text/event-stream''), (''Cache-Control'', ''no-cache''),
      (''Connection'', ''keep-alive'')]"

section \<open>The generation client and the routes: lemmas\<close>

lemma cancelled_None [simp]: "cancelled None t = False"
  by (simp add: cancelled_def)

lemma cancelled_Some [simp]: "cancelled (Some k) t = (k \<le> t)"
  by (simp add: cancelled_def)

lemma stream_loop_uncancelled:
  assumes "returns_normally onChunk"
  shows "stream_loop onChunk None t ds fin acc s =
     (case fin of
        Exhausted \<Rightarrow> LoopEnd False (acc @ concat (fragments ds)) (run_chunks onChunk (fragments ds) s)
      | StreamThrows e \<Rightarrow> LoopThrew False e (run_chunks onChunk (fragments ds) s)
      | StreamPending \<Rightarrow> LoopPending (run_chunks onChunk (fragments ds) s))"
proof (induction ds arbitrary: t acc s)
  case Nil
  show ?case by (simp add: run_chunks_def split: stream_end.splits)
next
  case (Cons d ds)
  show ?case
  proof (cases d)
    case None
    then show ?thesis using Cons.IH by (simp split: stream_end.splits)
  next
    case (Some x)
    show ?thesis
    proof (cases x)
      case Nil
      then show ?thesis using Some Cons.IH by (simp split: stream_end.splits)
    next
      case (Cons c cs)
      obtain s' where s': "onChunk (c # cs) s = (s', None)"
        using assms by (metis returns_normally_def prod.collapse)
      show ?thesis using Some Cons Cons.IH s'
        by (simp add: run_chunks_def split: stream_end.splits)
    qed
  qed
qed

lemma returns_normally_chunks_return:
  assumes "returns_normally onChunk"
  shows "chunks_return onChunk fs s"
proof (induction fs arbitrary: s)
  case Nil
  show ?case by simp
next
  case (Cons f fs)
  show ?case
  proof (cases "onChunk f s")
    case (Pair s' e)
    have "e = None" using assms Pair unfolding returns_normally_def by (metis snd_conv)
    then show ?thesis using Pair Cons.IH by simp
  qed
qed





lemma traced_returns_normally:
  "returns_normally cb \<Longrightarrow> returns_normally (traced tag cb)"
  unfolding returns_normally_def traced_def
  by (metis (mono_tags, lifting) case_prod_beta snd_conv)

lemma run_chunks_traced:
  "run_chunks (traced OnChunk oc) fs (tr, s) = (tr @ map OnChunk fs, run_chunks oc fs s)"
  by (induction fs arbitrary: tr s) (auto simp: run_chunks_def traced_def split: prod.splits)


lemma stream_loop_flag_uncancelled:
  "exit_flag (stream_loop onChunk None t ds fin acc s) = False"
proof (induction ds arbitrary: t acc s)
  case Nil
  show ?case by (simp split: stream_end.splits)
next
  case (Cons d ds)
  show ?case using Cons.IH
    by (simp split: option.splits list.splits prod.splits)
qed

lemma stream_loop_pending:
  "stream_loop onChunk ca t ds fin acc s = LoopPending st \<Longrightarrow> fin = StreamPending"
proof (induction ds arbitrary: t acc s)
  case Nil
  then show ?case by (cases fin) simp_all
next
  case (Cons d ds)
  then show ?case
    by (simp split: if_splits option.splits list.splits prod.splits)
qed

lemma stream_loop_traced_calls:
  "\<exists>fs. fst (exit_state (stream_loop (traced OnChunk oc) ca t ds fin acc (tr, s))) = tr @ map OnChunk fs"
proof (induction ds arbitrary: t acc s tr)
  case Nil
  have "tr = tr @ map OnChunk []" by simp
  then show ?case by (auto split: stream_end.splits)
next
  case (Cons d ds)
  show ?case
  proof (cases "cancelled ca t")
    case True
    have "tr = tr @ map OnChunk []" by simp
    then show ?thesis using True by auto
  next
    case nc: False
    show ?thesis
    proof (cases d)
      case None
      then show ?thesis using nc Cons.IH by simp
    next
      case (Some x)
      show ?thesis
      proof (cases x)
        case Nil
        then show ?thesis using Some nc Cons.IH by simp
      next
        case (Cons c cs)
        obtain s' e where r: "oc (c # cs) s = (s', e)" by (cases "oc (c # cs) s")
        show ?thesis
        proof (cases e)
          case None
          obtain fs where
            "fst (exit_state (stream_loop (traced OnChunk oc) ca (Suc t) ds fin (acc @ c # cs)
               (tr @ [OnChunk (c # cs)], s'))) = (tr @ [OnChunk (c # cs)]) @ map OnChunk fs"
            using Cons.IH by blast
          then have "fst (exit_state (stream_loop (traced OnChunk oc) ca t (d # ds) fin acc (tr, s)))
              = tr @ map OnChunk ((c # cs) # fs)"
            using Some Cons nc r None by (simp add: traced_def)
          then show ?thesis by blast
        next
          case (Some ex)
          have "fst (exit_state (stream_loop (traced OnChunk oc) ca t (d # ds) fin acc (tr, s)))
              = tr @ map OnChunk [c # cs]"
            using \<open>d = Some x\<close> Cons nc r Some by (simp add: traced_def)
          then show ?thesis by blast
        qed
      qed
    qed
  qed
qed

lemma catch_block_traced:
  "fst (fst (catch_block (untraced ce) (traced OnError oe) c e (tr, s))) =
     (if c then tr else tr @ [OnError (friendly_message (err_message e))])"
  by (simp add: catch_block_def traced_def untraced_def Let_def split: prod.splits)

lemma catch_block_normal:
  "returns_normally onError \<Longrightarrow> snd (catch_block ce onError c e s) = None"
  by (simp add: catch_block_def returns_normally_def Let_def)

lemma concat_fragments_Nil: "concat (fragments ds) = [] \<longleftrightarrow> fragments ds = []"
  by (induction ds rule: fragments.induct) auto

lemma no_response_message:
  "friendly_message (err_message (JsError ''No response from AI'')) =
     ''AI service temporarily unavailable. Please try again.''"
  by (simp add: friendly_message_def err_message_def)

lemma calls_create_throws:
  "calls_of ce (\<lambda>_. CreateThrows e) um oc oe od opts ca s =
     (if cancelled ca 0 then [] else [OnError (friendly_message (err_message e))])"
  by (simp add: calls_of_def createAIStream_def Let_def catch_block_traced)

lemma calls_stream_throws:
  assumes "returns_normally oc"
  shows "calls_of ce (\<lambda>_. CreateOk ds (StreamThrows e)) um oc oe od opts None s =
     map OnChunk (fragments ds) @ [OnError (friendly_message (err_message e))]"
  by (simp add: calls_of_def createAIStream_def Let_def
      stream_loop_uncancelled [OF traced_returns_normally [OF assms]]
      run_chunks_traced catch_block_traced)

lemma calls_empty_response:
  assumes "fragments ds = []"
  shows "calls_of ce (\<lambda>_. CreateOk ds Exhausted) um oc oe od opts None s =
     [OnError ''AI service temporarily unavailable. Please try again.'']"
proof -
  have loop: "stream_loop f None t ds Exhausted acc st = LoopEnd False acc st" for f t acc and st :: "call list \<times> 'a"
    using assms
  proof (induction ds arbitrary: t)
    case Nil
    show ?case by simp
  next
    case (Cons d ds)
    then show ?case by (cases d; cases "the d") auto
  qed
  show ?thesis
    by (simp add: calls_of_def createAIStream_def Let_def loop catch_block_traced no_response_message)
qed

lemma calls_done:
  assumes "returns_normally oc" and "fragments ds \<noteq> []"
  shows "calls_of ce (\<lambda>_. CreateOk ds Exhausted) um oc oe od opts None s =
     map OnChunk (fragments ds) @ OnDone (concat (fragments ds)) #
       (if snd (od (concat (fragments ds)) (run_chunks oc (fragments ds) s)) = None then []
        else [OnError (friendly_message (err_message (the (snd (od (concat (fragments ds)) (run_chunks oc (fragments ds) s))))))])"
proof -
  have ne: "concat (fragments ds) \<noteq> []"
    using assms(2) by (simp only: concat_fragments_Nil not_False_eq_True)
  obtain s' e where r: "od (concat (fragments ds)) (run_chunks oc (fragments ds) s) = (s', e)"
    by (cases "od (concat (fragments ds)) (run_chunks oc (fragments ds) s)")
  have "createAIStream (untraced ce) (\<lambda>_. CreateOk ds Exhausted) um
       (traced OnChunk oc) (traced OnError oe) (traced OnDone od) opts None ([], s) =
     (case traced OnDone od (concat (fragments ds))
             (map OnChunk (fragments ds), run_chunks oc (fragments ds) s) of
        (s'', Some e) \<Rightarrow> catch_block (untraced ce) (traced OnError oe) False e s''
      | (s'', None) \<Rightarrow> (s'', None))"
    unfolding createAIStream_def Let_def
    by (simp only: completion.case cancelled_None if_False
        stream_loop_uncancelled [OF traced_returns_normally [OF assms(1)]]
        stream_end.case loop_exit.case run_chunks_traced append_Nil not_False_eq_True if_True ne)
  then show ?thesis
    using r by (cases e) (simp_all add: calls_of_def traced_def catch_block_traced)
qed


lemma calls_stream_pending:
  assumes "returns_normally oc"
  shows "calls_of ce (\<lambda>_. CreateOk ds StreamPending) um oc oe od opts None s =
     map OnChunk (fragments ds)"
  by (simp add: calls_of_def createAIStream_def Let_def
      stream_loop_uncancelled [OF traced_returns_normally [OF assms]] run_chunks_traced)




lemma calls_shape:
  "\<exists>fs rest. calls_of ce provider um oc oe od opts ca s = map OnChunk fs @ rest \<and>
     ((rest = [] \<and> (ca \<noteq> None \<or> (\<exists>p. \<not> settles (provider p)))) \<or> (\<exists>m. rest = [OnError m]) \<or>
      (\<exists>t. t \<noteq> [] \<and> (rest = [OnDone t] \<or>
         (\<exists>m. rest = [OnDone t, OnError m] \<and> \<not> returns_normally od))))"
proof (cases "provider (build_messages
    (case instructions opts of None \<Rightarrow> DEFAULT_INSTRUCTIONS | Some i \<Rightarrow> i)
    (case conversationHistory opts of None \<Rightarrow> [] | Some h \<Rightarrow> h) um)")
  case (CreateThrows e)
  have "calls_of ce provider um oc oe od opts ca s = map OnChunk [] @
      (if cancelled ca 0 then [] else [OnError (friendly_message (err_message e))])"
    using CreateThrows by (simp add: calls_of_def createAIStream_def Let_def catch_block_traced)
  moreover have "cancelled ca 0 \<Longrightarrow> ca \<noteq> None" by (cases ca) simp_all
  ultimately show ?thesis by (metis (full_types))
next
  case CreatePending
  then have "calls_of ce provider um oc oe od opts ca s = map OnChunk [] @ []"
    by (simp add: calls_of_def createAIStream_def Let_def)
  moreover have "\<exists>p. \<not> settles (provider p)"
    using CreatePending by (metis settles.simps(3))
  ultimately show ?thesis by blast
next
  case (CreateOk ds fin)
  show ?thesis
  proof (cases "cancelled ca 0")
    case True
    then have "calls_of ce provider um oc oe od opts ca s = map OnChunk [] @ []"
      using CreateOk by (simp add: calls_of_def createAIStream_def Let_def)
    moreover have "ca \<noteq> None" using True by (cases ca) simp_all
    ultimately show ?thesis by blast
  next
    case False
    define r where "r = stream_loop (traced OnChunk oc) ca 1 ds fin [] ([], s)"
    obtain fs where fs: "fst (exit_state r) = map OnChunk fs"
      using stream_loop_traced_calls [of oc ca 1 ds fin "[]" "[]" s] unfolding r_def by auto
    have flag: "exit_flag r \<Longrightarrow> ca \<noteq> None"
      using stream_loop_flag_uncancelled [of "traced OnChunk oc" 1 ds fin "[]" "([], s)"]
      unfolding r_def by (cases ca) simp_all
    have run: "calls_of ce provider um oc oe od opts ca s =
      fst (fst (case r of
          LoopThrew c e s' \<Rightarrow> catch_block (untraced ce) (traced OnError oe) c e s'
        | LoopPending s' \<Rightarrow> (s', None)
        | LoopEnd c fullText s' \<Rightarrow>
            if \<not> c then
              if fullText = [] then
                catch_block (untraced ce) (traced OnError oe) c (JsError ''No response from AI'') s'
              else
                (case traced OnDone od fullText s' of
                   (s'', Some e) \<Rightarrow> catch_block (untraced ce) (traced OnError oe) c e s''
                 | (s'', None) \<Rightarrow> (s'', None))
            else (s', None)))"
      using CreateOk False by (simp add: calls_of_def createAIStream_def Let_def r_def)
    show ?thesis
    proof (cases r)
      case (LoopThrew c e st)
      obtain tr s' where st: "st = (tr, s')" by (cases st)
      have "calls_of ce provider um oc oe od opts ca s = map OnChunk fs @
          (if c then [] else [OnError (friendly_message (err_message e))])"
        using run LoopThrew st fs by (simp add: catch_block_traced)
      moreover have "c \<Longrightarrow> ca \<noteq> None" using flag LoopThrew by simp
      ultimately show ?thesis by (metis (full_types))
    next
      case (LoopPending st)
      obtain tr s' where st: "st = (tr, s')" by (cases st)
      have "calls_of ce provider um oc oe od opts ca s = map OnChunk fs @ []"
        using run LoopPending st fs by simp
      moreover have "fin = StreamPending"
        using LoopPending unfolding r_def by (rule stream_loop_pending)
      then have "\<exists>p. \<not> settles (provider p)"
        using CreateOk by (metis settles.simps(2))
      ultimately show ?thesis by blast
    next
      case (LoopEnd c ft st)
      obtain tr s' where st: "st = (tr, s')" by (cases st)
      have tr: "tr = map OnChunk fs" using fs LoopEnd st by simp
      show ?thesis
      proof (cases "c")
        case True
        then have "calls_of ce provider um oc oe od opts ca s = map OnChunk fs @ []"
          using run LoopEnd st tr by simp
        moreover have "ca \<noteq> None" using flag LoopEnd True by simp
        ultimately show ?thesis by blast
      next
        case nc: False
        show ?thesis
        proof (cases "ft = []")
          case True
          then have "calls_of ce provider um oc oe od opts ca s = map OnChunk fs @
              [OnError (friendly_message (err_message (JsError ''No response from AI'')))]"
            using run LoopEnd st tr nc by (simp add: catch_block_traced)
          then show ?thesis by blast
        next
          case ne: False
          obtain s'' e where od: "od ft s' = (s'', e)" by (cases "od ft s'")
          show ?thesis
          proof (cases e)
            case None
            then have "calls_of ce provider um oc oe od opts ca s = map OnChunk fs @ [OnDone ft]"
              using run LoopEnd st tr nc ne od by (simp add: traced_def)
            then show ?thesis using ne by blast
          next
            case (Some ex)
            then have "calls_of ce provider um oc oe od opts ca s = map OnChunk fs @
                [OnDone ft, OnError (friendly_message (err_message ex))]"
              using run LoopEnd st tr nc ne od by (simp add: traced_def catch_block_traced)
            moreover have "\<not> returns_normally od"
              using od Some by (auto simp: returns_normally_def intro!: exI [of _ ft] exI [of _ s'])
            ultimately show ?thesis using ne by blast
          qed
        qed
      qed
    qed
  qed
qed



lemma done_calls_nonempty:
  assumes "OnDone t \<in> set (calls_of ce provider um oc oe od opts ca s)"
  shows "t \<noteq> []"
proof -
  obtain fs rest where c: "calls_of ce provider um oc oe od opts ca s = map OnChunk fs @ rest"
    and r: "(rest = [] \<and> (ca \<noteq> None \<or> (\<exists>p. \<not> settles (provider p)))) \<or>
      (\<exists>m. rest = [OnError m]) \<or>
      (\<exists>t. t \<noteq> [] \<and> (rest = [OnDone t] \<or>
         (\<exists>m. rest = [OnDone t, OnError m] \<and> \<not> returns_normally od)))"
    using calls_shape [of ce provider um oc oe od opts ca s] by blast
  from assms c have "OnDone t \<in> set rest" by auto
  with r show ?thesis by auto
qed

lemma createAIStream_no_unhandled:
  assumes "returns_normally onError"
  shows "snd (createAIStream ce provider um onChunk onError onDone opts ca s) = None"
  by (auto simp: createAIStream_def Let_def catch_block_normal [OF assms]
      split: completion.splits loop_exit.splits prod.splits option.splits)

lemma friendly_no_response:
  "friendly_message ''No response from AI'' = ''AI service temporarily unavailable. Please try again.''"
  by (simp add: friendly_message_def)

lemma on_chunk_returns_normally: "returns_normally on_chunk"
  by (simp add: returns_normally_def on_chunk_def)

lemma run_chunks_on_chunk:
  "run_chunks on_chunk fs w =
     w\<lparr>w_res := (w_res w)\<lparr>events := events (w_res w) @ map ChunkEvent fs\<rparr>\<rparr>"
proof (induction fs arbitrary: w)
  case Nil
  show ?case by (simp add: run_chunks_def)
next
  case (Cons f fs)
  have step: "run_chunks on_chunk (f # fs) w = run_chunks on_chunk fs (fst (on_chunk f w))"
    by (simp add: run_chunks_def)
  show ?case unfolding step Cons.IH by (simp add: on_chunk_def write_event_def)
qed

lemma stream_response_unfold:
  "stream_response env t aid hist w =
     (case openai env (build_messages DEFAULT_INSTRUCTIONS hist t) of
        CreateThrows e \<Rightarrow>
          on_error env aid (friendly_message (err_message e)) (console_error (err_message e) w)
      | CreatePending \<Rightarrow> (w, None)
      | CreateOk ds fin \<Rightarrow>
          (case fin of
             StreamPending \<Rightarrow> (run_chunks on_chunk (fragments ds) w, None)
           | StreamThrows e \<Rightarrow>
               on_error env aid (friendly_message (err_message e))
                 (console_error (err_message e) (run_chunks on_chunk (fragments ds) w))
           | Exhausted \<Rightarrow>
               if fragments ds = [] then
                 on_error env aid ''AI service temporarily unavailable. Please try again.''
                   (console_error ''No response from AI'' (run_chunks on_chunk (fragments ds) w))
               else
                 (case on_done env aid (concat (fragments ds)) (run_chunks on_chunk (fragments ds) w) of
                    (w', Some e) \<Rightarrow>
                      on_error env aid (friendly_message (err_message e)) (console_error (err_message e) w')
                  | (w', None) \<Rightarrow> (w', None))))"
proof (cases "openai env (build_messages DEFAULT_INSTRUCTIONS hist t)")
  case (CreateThrows e)
  then show ?thesis
    by (simp add: stream_response_def createAIStream_def catch_block_def Let_def)
next
  case CreatePending
  then show ?thesis
    by (simp add: stream_response_def createAIStream_def Let_def)
next
  case (CreateOk ds fin)
  show ?thesis
  proof (cases fin)
    case StreamPending
    then show ?thesis using CreateOk
      by (simp add: stream_response_def createAIStream_def Let_def
          stream_loop_uncancelled [OF on_chunk_returns_normally])
  next
    case (StreamThrows e)
    then show ?thesis using CreateOk
      by (simp add: stream_response_def createAIStream_def catch_block_def Let_def
          stream_loop_uncancelled [OF on_chunk_returns_normally])
  next
    case Exhausted
    show ?thesis
    proof (cases "fragments ds = []")
      case True
      then have "concat (fragments ds) = []" by simp
      then show ?thesis using CreateOk Exhausted True
        by (simp add: stream_response_def createAIStream_def catch_block_def Let_def
            stream_loop_uncancelled [OF on_chunk_returns_normally] friendly_no_response
            err_message_def del: concat_eq_Nil_conv)
    next
      case False
      then have "concat (fragments ds) \<noteq> []" by (simp only: concat_fragments_Nil not_False_eq_True)
      then show ?thesis using CreateOk Exhausted False
        by (simp add: stream_response_def createAIStream_def catch_block_def Let_def
            stream_loop_uncancelled [OF on_chunk_returns_normally]
            del: concat_eq_Nil_conv split: prod.splits option.splits)
    qed
  qed
qed

lemma stream_events:
  fixes env t aid hist w
  defines "r \<equiv> stream_response env t aid hist w"
    and "p \<equiv> build_messages DEFAULT_INSTRUCTIONS hist t"
  shows done_ok: "openai env p = CreateOk ds Exhausted \<Longrightarrow> fragments ds \<noteq> [] \<Longrightarrow> fault env UpdateSent = None \<Longrightarrow>
      events (w_res (fst r)) = events (w_res w) @ map ChunkEvent (fragments ds) @ [DoneEvent aid (concat (fragments ds))]
      \<and> ended (w_res (fst r)) \<and> snd r = None"
    and create_throws_ok: "openai env p = CreateThrows e \<Longrightarrow> fault env UpdateFailed = None \<Longrightarrow>
      events (w_res (fst r)) = events (w_res w) @ [ErrorEvent (friendly_message (err_message e))]
      \<and> ended (w_res (fst r)) \<and> snd r = None"
    and stream_throws_ok: "openai env p = CreateOk ds (StreamThrows e) \<Longrightarrow> fault env UpdateFailed = None \<Longrightarrow>
      events (w_res (fst r)) = events (w_res w) @ map ChunkEvent (fragments ds) @ [ErrorEvent (friendly_message (err_message e))]
      \<and> ended (w_res (fst r)) \<and> snd r = None"
    and empty_ok: "openai env p = CreateOk ds Exhausted \<Longrightarrow> fragments ds = [] \<Longrightarrow> fault env UpdateFailed = None \<Longrightarrow>
      events (w_res (fst r)) = events (w_res w) @ [ErrorEvent ''AI service temporarily unavailable. Please try again.'']
      \<and> ended (w_res (fst r)) \<and> snd r = None"
    and done_update_throws: "openai env p = CreateOk ds Exhausted \<Longrightarrow> fragments ds \<noteq> [] \<Longrightarrow>
      fault env UpdateSent = Some e1 \<Longrightarrow> fault env UpdateFailed = None \<Longrightarrow>
      events (w_res (fst r)) = events (w_res w) @ map ChunkEvent (fragments ds) @ [ErrorEvent (friendly_message (err_message e1))]
      \<and> ended (w_res (fst r)) \<and> snd r = None
      \<and> ConsoleError ''OpenAI API error:'' (err_message e1) \<in> set (w_log (fst r))
      \<and> w_db (fst r) = fst (update_message_error Failed (friendly_message (err_message e1)) aid (w_db w))"
    and both_updates_throw: "openai env p = CreateOk ds Exhausted \<Longrightarrow> fragments ds \<noteq> [] \<Longrightarrow>
      fault env UpdateSent = Some e1 \<Longrightarrow> fault env UpdateFailed = Some e2 \<Longrightarrow>
      events (w_res (fst r)) = events (w_res w) @ map ChunkEvent (fragments ds)
      \<and> ended (w_res (fst r)) = ended (w_res w) \<and> snd r = Some e2 \<and> w_db (fst r) = w_db w"
    and create_throws_update_throws: "openai env p = CreateThrows e \<Longrightarrow> fault env UpdateFailed = Some e2 \<Longrightarrow>
      events (w_res (fst r)) = events (w_res w)
      \<and> ended (w_res (fst r)) = ended (w_res w) \<and> snd r = Some e2 \<and> w_db (fst r) = w_db w"
    and stream_throws_update_throws: "openai env p = CreateOk ds (StreamThrows e) \<Longrightarrow> fault env UpdateFailed = Some e2 \<Longrightarrow>
      events (w_res (fst r)) = events (w_res w) @ map ChunkEvent (fragments ds)
      \<and> ended (w_res (fst r)) = ended (w_res w) \<and> snd r = Some e2 \<and> w_db (fst r) = w_db w"
    and empty_update_throws: "openai env p = CreateOk ds Exhausted \<Longrightarrow> fragments ds = [] \<Longrightarrow> fault env UpdateFailed = Some e2 \<Longrightarrow>
      events (w_res (fst r)) = events (w_res w)
      \<and> ended (w_res (fst r)) = ended (w_res w) \<and> snd r = Some e2 \<and> w_db (fst r) = w_db w"
  unfolding r_def p_def
  by (simp_all add: stream_response_unfold run_chunks_on_chunk on_error_def on_done_def
      console_error_def log_entry_def write_event_def end_response_def Let_def)

lemma fold_max_append: "fold max (xs @ [x :: nat]) a = max x (fold max xs a)"
  by simp

lemma next_rowid_snoc:
  "rowid r = next_rowid rows \<Longrightarrow> next_rowid (rows @ [r]) = Suc (next_rowid rows)"
  by (simp add: next_rowid_def)

lemma setup_body_result:
  "setup_body env cid t d =
     (case fault env InsertUser of
        Some e \<Rightarrow> (d, Inl e)
      | None \<Rightarrow>
       (case fault env InsertAssistant of
          Some e \<Rightarrow> (fst (insert_message (uuid1 env) cid User t Sent (now env) d), Inl e)
        | None \<Rightarrow>
         (case fault env TouchConversation of
            Some e \<Rightarrow> (d\<lparr>messages := messages d @ [user_row env cid t d, assistant_row env cid d],
                          last_insert_rowid := Suc (next_rowid (messages d))\<rparr>, Inl e)
          | None \<Rightarrow>
           (case fault env SelectHistory of
              Some e \<Rightarrow> (after_setup env cid t d, Inl e)
            | None \<Rightarrow> (after_setup env cid t d,
                        Inr (uuid2 env, history_of (after_setup env cid t d) cid (uuid2 env)))))))"
  by (cases d) (simp add: setup_body_def insert_message_def touch_conversation_def Let_def user_row_def
      assistant_row_def after_setup_def history_of_def next_rowid_def split: option.splits)

lemma transaction_setup:
  "transaction (setup_body env cid t) d =
     (case setup_fault env of
        Some e \<Rightarrow> (d\<lparr>last_insert_rowid := rowid_at_fault env d\<rparr>, Inl e)
      | None \<Rightarrow> (after_setup env cid t d,
                  Inr (uuid2 env, history_of (after_setup env cid t d) cid (uuid2 env))))"
  by (cases d) (simp add: transaction_def setup_body_result setup_fault_def rowid_at_fault_def
      insert_message_def after_setup_def Let_def split: option.splits)

lemma trim_nonempty: "trim c \<noteq> [] \<Longrightarrow> c \<noteq> []"
  by (auto simp: trim_def)

lemma post_messages_valid:
  assumes "trim c \<noteq> []" and "length (trim c) \<le> 10000"
    and "fault env SelectConversation = None"
    and "select_conversation (w_db w) cid \<noteq> Undefined"
  shows "post_messages env cid (Text c) w =
     (case setup_fault env of
        Some e \<Rightarrow>
          (post_messages_catch e
             (w\<lparr>w_log := w_log w @ [Info ''Posting new message to conversation''],
                w_db := (w_db w)\<lparr>last_insert_rowid := rowid_at_fault env (w_db w)\<rparr>\<rparr>), None)
      | None \<Rightarrow>
          stream_response env (trim c) (uuid2 env)
            (history_of (after_setup env cid (trim c) (w_db w)) cid (uuid2 env))
            (w\<lparr>w_log := w_log w @ [Info ''Posting new message to conversation''],
               w_db := after_setup env cid (trim c) (w_db w),
               w_res := (w_res w)\<lparr>headers := headers (w_res w) @ stream_headers\<rparr>\<rparr>))"
proof -
  obtain x xs where c: "c = x # xs" using trim_nonempty [OF assms(1)] by (cases c) auto
  have tr: "truthy (select_conversation (w_db w) cid)"
    using assms(4) by (cases "select_conversation (w_db w) cid") auto
  have len: "\<not> 10000 < length (trim (x # xs))" "trim (x # xs) \<noteq> []"
    using assms(1,2) c by auto
  show ?thesis
    unfolding c post_messages_def
    using tr len assms(3)
    by (simp add: Let_def transaction_setup log_entry_def setHeader_def stream_headers_def
        split: option.splits)
qed




lemma sort_key_snoc:
  "\<exists>pre post. sort_key f (xs @ [u]) = pre @ [u] @ post"
proof -
  have "u \<in> set (sort_key f (xs @ [u]))" by simp
  then show ?thesis by (metis split_list append_Cons append_Nil)
qed





lemma not_ws_a: "\<not> is_whitespace 0x61" by (simp add: is_whitespace_def)

lemma ws_space: "is_whitespace 0x20" by (simp add: is_whitespace_def)

lemma dropWhile_replicate: "\<not> P a \<Longrightarrow> dropWhile P (replicate n a @ xs) = replicate n a @ (if n = 0 then dropWhile P xs else xs)"
  by (cases n) auto

lemma trim_replicate_space:
  assumes "\<not> is_whitespace a" and "is_whitespace b" and "0 < n"
  shows "trim (replicate n a @ [b]) = replicate n a"
proof -
  have 1: "dropWhile is_whitespace (replicate n a @ [b]) = replicate n a @ [b]"
    using assms by (simp add: dropWhile_replicate)
  have 2: "rev (replicate n a @ [b]) = b # replicate n a" by simp
  have 3: "dropWhile is_whitespace (b # replicate n a) = replicate n a"
    using assms dropWhile_replicate [of is_whitespace a n "[]"] by simp
  show ?thesis unfolding trim_def 1 2 3 by simp
qed

lemma trim_replicate:
  assumes "\<not> is_whitespace a"
  shows "trim (replicate n a) = replicate n a"
  using assms dropWhile_replicate [of is_whitespace a n "[]"] by (simp add: trim_def)

lemma post_messages_catch_fresh:
  "\<not> headersSent (w_res w) \<Longrightarrow>
   post_messages_catch e w =
     w\<lparr>w_log := w_log w @ [ErrorWithThrown ''Error processing message'' e],
       w_res := send_json 500 (ErrorBody ''Failed to process message'') (w_res w)\<rparr>"
  by (simp add: post_messages_catch_def log_entry_def Let_def)

lemma post_messages_setup_fails:
  assumes "trim c \<noteq> []" and "length (trim c) \<le> 10000"
    and "fault env SelectConversation = None"
    and "select_conversation (w_db w) cid \<noteq> Undefined"
    and "\<not> headersSent (w_res w)" and "setup_fault env = Some e"
  shows "post_messages env cid (Text c) w =
     (w\<lparr>w_log := w_log w @ [Info ''Posting new message to conversation'',
                              ErrorWithThrown ''Error processing message'' e],
        w_db := (w_db w)\<lparr>last_insert_rowid := rowid_at_fault env (w_db w)\<rparr>,
        w_res := send_json 500 (ErrorBody ''Failed to process message'') (w_res w)\<rparr>, None)"
  using assms(5,6)
  by (simp add: post_messages_valid [OF assms(1-4)] post_messages_catch_fresh)

lemma statusCode_stream_response:
  "statusCode (w_res (fst (stream_response env t aid hist w))) = statusCode (w_res w)"
  by (simp add: stream_response_unfold run_chunks_on_chunk on_error_def on_done_def
      console_error_def log_entry_def write_event_def end_response_def Let_def
      split: completion.splits stream_end.splits option.splits)

lemma statusCode_catch:
  "statusCode (w_res w) = 200 \<Longrightarrow> statusCode (w_res (post_messages_catch e w)) \<noteq> 400"
  by (simp add: post_messages_catch_def log_entry_def Let_def send_json_def write_event_def
      end_response_def)

lemma post_messages_not_400:
  assumes "trim c \<noteq> []" and "length (trim c) \<le> 10000" and "statusCode (w_res w) = 200"
  shows "statusCode (w_res (fst (post_messages env cid (Text c) w))) \<noteq> 400"
proof -
  obtain x xs where c: "c = x # xs" using trim_nonempty [OF assms(1)] by (cases c) auto
  have len: "\<not> 10000 < length (trim (x # xs))" "trim (x # xs) \<noteq> []"
    using assms(1,2) c by auto
  let ?w1 = "log_entry (Info ''Posting new message to conversation'') w"
  show ?thesis
  proof (cases "fault env SelectConversation")
    case (Some e)
    then show ?thesis unfolding c post_messages_def
      using len statusCode_catch [of ?w1 e] assms(3)
      by (simp add: Let_def log_entry_def)
  next
    case None
    show ?thesis
    proof (cases "truthy (select_conversation (w_db w) cid)")
      case False
      then show ?thesis unfolding c post_messages_def using len None
        by (simp add: Let_def log_entry_def send_json_def)
    next
      case True
      then have ex: "select_conversation (w_db w) cid \<noteq> Undefined" by auto
      show ?thesis
      proof (cases "setup_fault env")
        case (Some e)
        then show ?thesis
          using assms(3)
          by (simp add: post_messages_valid [OF assms(1,2) None ex] statusCode_catch)
      next
        case None
        then show ?thesis
          using assms(3)
          by (simp add: post_messages_valid [OF assms(1,2) \<open>fault env SelectConversation = None\<close> ex]
              statusCode_stream_response)
      qed
    qed
  qed
qed

lemma post_messages_rejects:
  shows "body = Missing \<or> body = NotAString \<or> body = Text [] \<Longrightarrow>
      post_messages env cid body w =
        (w\<lparr>w_res := send_json 400 (ErrorBody ''Message content is required'') (w_res w)\<rparr>, None)"
    and "c \<noteq> [] \<Longrightarrow> trim c = [] \<Longrightarrow>
      post_messages env cid (Text c) w =
        (w\<lparr>w_res := send_json 400 (ErrorBody ''Message content cannot be empty'') (w_res w)\<rparr>, None)"
    and "10000 < length (trim c) \<Longrightarrow>
      post_messages env cid (Text c) w =
        (w\<lparr>w_res := send_json 400 (ErrorBody ''Message too long (max 10000 characters)'') (w_res w)\<rparr>, None)"
proof -
  show "body = Missing \<or> body = NotAString \<or> body = Text [] \<Longrightarrow>
      post_messages env cid body w =
        (w\<lparr>w_res := send_json 400 (ErrorBody ''Message content is required'') (w_res w)\<rparr>, None)"
    by (auto simp: post_messages_def)
  show "c \<noteq> [] \<Longrightarrow> trim c = [] \<Longrightarrow>
      post_messages env cid (Text c) w =
        (w\<lparr>w_res := send_json 400 (ErrorBody ''Message content cannot be empty'') (w_res w)\<rparr>, None)"
    by (cases c) (simp_all add: post_messages_def)
  show "10000 < length (trim c) \<Longrightarrow>
      post_messages env cid (Text c) w =
        (w\<lparr>w_res := send_json 400 (ErrorBody ''Message too long (max 10000 characters)'') (w_res w)\<rparr>, None)"
  proof -
    assume long: "10000 < length (trim c)"
    then have ne: "trim c \<noteq> []" by auto
    then obtain x xs where c: "c = x # xs" using trim_nonempty by (cases c) auto
    show ?thesis using long ne unfolding c post_messages_def by (simp add: Let_def)
  qed
qed

lemma setup_fault_openai [simp]: "setup_fault (env\<lparr>openai := P\<rparr>) = setup_fault env"
  by (simp add: setup_fault_def split: option.splits)

lemma after_setup_openai [simp]: "after_setup (env\<lparr>openai := P\<rparr>) = after_setup env"
  by (intro ext) (simp add: after_setup_def user_row_def assistant_row_def)

lemma on_error_openai [simp]: "on_error (env\<lparr>openai := P\<rparr>) = on_error env"
  by (intro ext) (simp add: on_error_def)

lemma on_done_openai [simp]: "on_done (env\<lparr>openai := P\<rparr>) = on_done env"
  by (intro ext) (simp add: on_done_def)

lemma stream_response_provider:
  "stream_response (env\<lparr>openai := P\<rparr>) t aid hist w =
   stream_response (env\<lparr>openai := \<lambda>_. P (build_messages DEFAULT_INSTRUCTIONS hist t)\<rparr>) t aid hist w"
  by (cases "P (build_messages DEFAULT_INSTRUCTIONS hist t)")
    (simp_all add: stream_response_unfold split: stream_end.splits)

lemma post_messages_provider:
  assumes "trim c \<noteq> []" and "length (trim c) \<le> 10000"
    and "fault env SelectConversation = None"
    and "select_conversation (w_db w) cid \<noteq> Undefined"
    and "setup_fault env = None"
  shows "post_messages (env\<lparr>openai := P\<rparr>) cid (Text c) w =
     post_messages (env\<lparr>openai := \<lambda>_. P (build_messages DEFAULT_INSTRUCTIONS
        (history_of (after_setup env cid (trim c) (w_db w)) cid (uuid2 env)) (trim c))\<rparr>) cid (Text c) w"
proof -
  have f: "fault (env\<lparr>openai := Q\<rparr>) SelectConversation = None" for Q
    using assms(3) by simp
  show ?thesis
    using assms(5)
    by (simp add: post_messages_valid [OF assms(1,2) f assms(4)])
      (rule stream_response_provider)
qed

lemma history_after_setup:
  assumes "uuid1 env \<noteq> uuid2 env"
  shows "\<exists>pre post. history_of (after_setup env cid t d) cid (uuid2 env) =
     pre @ [\<lparr>role = User, content = store_text t\<rparr>] @ post"
proof -
  let ?Q = "\<lambda>m. conversation_id m = cid \<and> msg_id m \<noteq> uuid2 env"
  let ?u = "user_row env cid t d" and ?a = "assistant_row env cid d"
  let ?chat = "\<lambda>m. \<lparr>role = msg_role m, content = msg_content m\<rparr>"
  have Qu: "?Q ?u" using assms by (simp add: user_row_def)
  have Qa: "\<not> ?Q ?a" by (simp add: assistant_row_def)
  have M: "messages (after_setup env cid t d) = messages d @ [?u, ?a]"
    by (simp add: after_setup_def)
  have F: "filter ?Q (messages (after_setup env cid t d)) = filter ?Q (messages d) @ [?u]"
    unfolding M using Qu Qa by simp
  obtain pre post where
    S: "sort_key created_at (filter ?Q (messages d) @ [?u]) = pre @ [?u] @ post"
    using sort_key_snoc [of created_at "filter ?Q (messages d)" ?u] by (elim exE)
  have "history_of (after_setup env cid t d) cid (uuid2 env) =
      map ?chat (sort_key created_at (filter ?Q (messages (after_setup env cid t d))))"
    unfolding history_of_def select_history_def by (simp add: o_def)
  also have "\<dots> = map ?chat (pre @ [?u] @ post)"
    by (simp only: F S)
  also have "\<dots> = map ?chat pre @ [\<lparr>role = User, content = store_text t\<rparr>] @ map ?chat post"
    by (simp add: user_row_def)
  finally show ?thesis by (intro exI)
qed

lemma rowid_at_fault_openai [simp]: "rowid_at_fault (env\<lparr>openai := P\<rparr>) = rowid_at_fault env"
  by (intro ext) (simp add: rowid_at_fault_def split: option.splits)

lemma history_of_select_messages:
  "history_of d cid x =
     map (\<lambda>m. \<lparr>role = msg_role m, content = msg_content m\<rparr>)
       (filter (\<lambda>m. msg_id m \<noteq> x) (select_messages d cid))"
proof -
  have "filter (\<lambda>m. conversation_id m = cid \<and> msg_id m \<noteq> x) (messages d) =
      filter (\<lambda>m. msg_id m \<noteq> x) (filter (\<lambda>m. conversation_id m = cid) (messages d))"
    by (simp add: conj_commute)
  then show ?thesis
    by (simp add: history_of_def select_history_def select_messages_def filter_sort o_def)
qed

lemma placeholder_only_row:
  assumes "uuid1 env \<noteq> uuid2 env" and "uuid2 env \<notin> msg_id ` set (messages d)"
    and "m \<in> set (select_messages (after_setup env cid t d) cid)"
  shows "msg_id m = uuid2 env \<longleftrightarrow> m = assistant_row env cid d"
proof -
  have "m \<in> set (messages (after_setup env cid t d))"
    using assms(3) by (simp add: select_messages_def)
  then have "m \<in> set (messages d) \<or> m = user_row env cid t d \<or> m = assistant_row env cid d"
    by (auto simp: after_setup_def)
  moreover have "msg_id m \<noteq> uuid2 env \<and> m \<noteq> assistant_row env cid d" if "m \<in> set (messages d)"
  proof -
    have "msg_id m \<in> msg_id ` set (messages d)" using that by (rule imageI)
    then have "msg_id m \<noteq> uuid2 env" using assms(2) by metis
    moreover have "msg_id (assistant_row env cid d) = uuid2 env" by (simp add: assistant_row_def)
    ultimately show ?thesis by metis
  qed
  moreover have "msg_id (user_row env cid t d) \<noteq> uuid2 env"
    "user_row env cid t d \<noteq> assistant_row env cid d"
    "msg_id (assistant_row env cid d) = uuid2 env"
    using assms(1) by (auto simp: user_row_def assistant_row_def)
  ultimately show ?thesis by auto
qed

lemma history_excludes_placeholder:
  assumes "uuid1 env \<noteq> uuid2 env" and "uuid2 env \<notin> msg_id ` set (messages d)"
  shows "history_of (after_setup env cid t d) cid (uuid2 env) =
     map (\<lambda>m. \<lparr>role = msg_role m, content = msg_content m\<rparr>)
       (removeAll (assistant_row env cid d) (select_messages (after_setup env cid t d) cid))"
proof -
  have "filter (\<lambda>m. msg_id m \<noteq> uuid2 env) (select_messages (after_setup env cid t d) cid) =
      filter (\<lambda>m. m \<noteq> assistant_row env cid d) (select_messages (after_setup env cid t d) cid)"
    by (rule filter_cong [OF refl]) (simp add: placeholder_only_row [OF assms])
  then show ?thesis
    by (simp add: history_of_select_messages removeAll_filter_not_eq eq_commute)
qed







lemma chat_message_eta: "map (\<lambda>msg. \<lparr>role = role msg, content = content msg\<rparr>) h = h"
  by (induction h) simp_all

lemma build_messages_history:
  "build_messages instr h t =
     \<lparr>role = System, content = instr\<rparr> # h @ [\<lparr>role = User, content = t\<rparr>]"
  unfolding build_messages_def chat_message_eta by simp



lemma sample_conversation_exists: "select_conversation (w_db sample_world) ''c-1'' \<noteq> Undefined"
  by (simp add: select_conversation_def sample_world_def sample_database_def)

lemma trim_Hi: "trim [0x48, 0x69] = [0x48, 0x69]"
  by (simp add: trim_def is_whitespace_def)

lemma sample_history:
  "history_of (after_setup (sample_env f p) ''c-1'' t sample_database) ''c-1'' ''a-1'' =
     [\<lparr>role = User, content = store_text t\<rparr>]"
  by (simp add: history_of_def select_history_def after_setup_def user_row_def assistant_row_def
      sample_env_def sample_database_def)

lemma sample_listing:
  "select_messages (after_setup (sample_env f p) ''c-1'' t sample_database) ''c-1'' =
     [user_row (sample_env f p) ''c-1'' t sample_database,
      assistant_row (sample_env f p) ''c-1'' sample_database]"
  by (simp add: select_messages_def after_setup_def user_row_def assistant_row_def
      sample_env_def sample_database_def)

lemma sample_send_done:
  assumes "trim c \<noteq> []" and "length (trim c) \<le> 10000"
    and "p (\<lparr>role = System, content = DEFAULT_INSTRUCTIONS\<rparr> #
            [\<lparr>role = User, content = store_text (trim c)\<rparr>, \<lparr>role = User, content = trim c\<rparr>]) =
          CreateOk ds Exhausted"
    and "fragments ds \<noteq> []"
  shows "events (w_res (fst (post_messages (sample_env (\<lambda>_. None) p) ''c-1'' (Text c) sample_world))) =
     map ChunkEvent (fragments ds) @ [DoneEvent ''a-1'' (concat (fragments ds))]"
proof -
  let ?E = "sample_env (\<lambda>_. None) p"
  let ?h = "[\<lparr>role = User, content = store_text (trim c)\<rparr>]"
  have f: "fault ?E SelectConversation = None" "setup_fault ?E = None" "fault ?E UpdateSent = None"
    "uuid2 ?E = ''a-1''" "openai ?E = p"
    by (simp_all add: sample_env_def setup_fault_def)
  have db: "w_db sample_world = sample_database" by (simp add: sample_world_def)
  define w where "w = sample_world\<lparr>w_log := w_log sample_world @ [Info ''Posting new message to conversation''],
      w_db := after_setup ?E ''c-1'' (trim c) (w_db sample_world),
      w_res := (w_res sample_world)\<lparr>headers := headers (w_res sample_world) @ stream_headers\<rparr>\<rparr>"
  have pm: "post_messages ?E ''c-1'' (Text c) sample_world =
      stream_response ?E (trim c) ''a-1'' ?h w"
    using f(2) unfolding w_def
    by (simp add: post_messages_valid [OF assms(1,2) f(1) sample_conversation_exists] f(4) db
        sample_history)
  have w: "events (w_res w) = []"
    unfolding w_def by (simp add: sample_world_def fresh_response_def)
  have o: "openai ?E (build_messages DEFAULT_INSTRUCTIONS ?h (trim c)) = CreateOk ds Exhausted"
    using assms(3) by (simp add: f(5) build_messages_history)
  show ?thesis
    unfolding pm using done_ok [OF o assms(4) f(3), of "''a-1''" w] w by simp
qed

lemma friendly_locked:
  "friendly_message (err_message locked) = ''AI service temporarily unavailable. Please try again.''"
  by (simp add: friendly_message_def err_message_def locked_def)

lemma post_messages_sample:
  assumes "trim c \<noteq> []" and "length (trim c) \<le> 10000"
    and "fault (sample_env f p) SelectConversation = None" and "setup_fault (sample_env f p) = None"
  shows "\<exists>hist w. post_messages (sample_env f p) ''c-1'' (Text c) sample_world =
           stream_response (sample_env f p) (trim c) ''a-1'' hist w
         \<and> events (w_res w) = [] \<and> \<not> ended (w_res w) \<and> statusCode (w_res w) = 200
         \<and> messages (w_db w) = messages (after_setup (sample_env f p) ''c-1'' (trim c) sample_database)"
proof -
  let ?E = "sample_env f p"
  let ?hist = "history_of (after_setup ?E ''c-1'' (trim c) (w_db sample_world)) ''c-1'' (uuid2 ?E)"
  let ?w = "sample_world\<lparr>w_log := w_log sample_world @ [Info ''Posting new message to conversation''],
               w_db := after_setup ?E ''c-1'' (trim c) (w_db sample_world),
               w_res := (w_res sample_world)\<lparr>headers := headers (w_res sample_world) @ stream_headers\<rparr>\<rparr>"
  have "post_messages ?E ''c-1'' (Text c) sample_world = stream_response ?E (trim c) (uuid2 ?E) ?hist ?w"
    using assms(4) by (simp add: post_messages_valid [OF assms(1,2,3) sample_conversation_exists])
  moreover have "uuid2 ?E = ''a-1''" by (simp add: sample_env_def)
  moreover have "events (w_res ?w) = [] \<and> \<not> ended (w_res ?w) \<and> statusCode (w_res ?w) = 200
      \<and> messages (w_db ?w) = messages (after_setup ?E ''c-1'' (trim c) sample_database)"
    by (simp add: sample_world_def fresh_response_def)
  ultimately show ?thesis by metis
qed

lemma post_messages_streams:
  assumes "trim c \<noteq> []" and "length (trim c) \<le> 10000"
    and "fault env SelectConversation = None"
    and "select_conversation (w_db w) cid \<noteq> Undefined"
    and "setup_fault env = None"
  shows "\<exists>hist w'. post_messages env cid (Text c) w = stream_response env (trim c) (uuid2 env) hist w'
         \<and> events (w_res w') = events (w_res w) \<and> ended (w_res w') = ended (w_res w)
         \<and> w_db w' = after_setup env cid (trim c) (w_db w)"
proof -
  let ?hist = "history_of (after_setup env cid (trim c) (w_db w)) cid (uuid2 env)"
  let ?w = "w\<lparr>w_log := w_log w @ [Info ''Posting new message to conversation''],
               w_db := after_setup env cid (trim c) (w_db w),
               w_res := (w_res w)\<lparr>headers := headers (w_res w) @ stream_headers\<rparr>\<rparr>"
  have "post_messages env cid (Text c) w = stream_response env (trim c) (uuid2 env) ?hist ?w"
    using assms(5) by (simp add: post_messages_valid [OF assms(1-4)])
  moreover have "events (w_res ?w) = events (w_res w) \<and> ended (w_res ?w) = ended (w_res w)
      \<and> w_db ?w = after_setup env cid (trim c) (w_db w)"
    by simp
  ultimately have "post_messages env cid (Text c) w = stream_response env (trim c) (uuid2 env) ?hist ?w
      \<and> events (w_res ?w) = events (w_res w) \<and> ended (w_res ?w) = ended (w_res w)
      \<and> w_db ?w = after_setup env cid (trim c) (w_db w)"
    by (rule conjI)
  then show ?thesis by (intro exI)
qed

lemma send_outcomes:
  assumes v: "trim c \<noteq> []" "length (trim c) \<le> 10000" "fault env SelectConversation = None"
    "select_conversation (w_db w) cid \<noteq> Undefined" "setup_fault env = None"
  defines "r \<equiv> post_messages env cid (Text c) w"
    and "d \<equiv> after_setup env cid (trim c) (w_db w)"
  shows send_done: "openai env = (\<lambda>_. CreateOk ds Exhausted) \<Longrightarrow> fragments ds \<noteq> [] \<Longrightarrow>
      fault env UpdateSent = None \<Longrightarrow>
      events (w_res (fst r)) = events (w_res w) @ map ChunkEvent (fragments ds)
        @ [DoneEvent (uuid2 env) (concat (fragments ds))]"
    and send_create_throws: "openai env = (\<lambda>_. CreateThrows e) \<Longrightarrow> fault env UpdateFailed = None \<Longrightarrow>
      events (w_res (fst r)) = events (w_res w) @ [ErrorEvent (friendly_message (err_message e))]"
    and send_stream_throws: "openai env = (\<lambda>_. CreateOk ds (StreamThrows e)) \<Longrightarrow>
      fault env UpdateFailed = None \<Longrightarrow>
      events (w_res (fst r)) = events (w_res w) @ map ChunkEvent (fragments ds)
        @ [ErrorEvent (friendly_message (err_message e))]"
    and send_empty: "openai env = (\<lambda>_. CreateOk ds Exhausted) \<Longrightarrow> fragments ds = [] \<Longrightarrow>
      fault env UpdateFailed = None \<Longrightarrow>
      events (w_res (fst r)) = events (w_res w)
        @ [ErrorEvent ''AI service temporarily unavailable. Please try again.'']"
    and send_done_update_throws: "openai env = (\<lambda>_. CreateOk ds Exhausted) \<Longrightarrow> fragments ds \<noteq> [] \<Longrightarrow>
      fault env UpdateSent = Some e1 \<Longrightarrow> fault env UpdateFailed = None \<Longrightarrow>
      events (w_res (fst r)) = events (w_res w) @ map ChunkEvent (fragments ds)
          @ [ErrorEvent (friendly_message (err_message e1))]
      \<and> ended (w_res (fst r)) \<and> snd r = None
      \<and> ConsoleError ''OpenAI API error:'' (err_message e1) \<in> set (w_log (fst r))
      \<and> w_db (fst r) = fst (update_message_error Failed (friendly_message (err_message e1)) (uuid2 env) d)"
    and send_both_updates_throw: "openai env = (\<lambda>_. CreateOk ds Exhausted) \<Longrightarrow> fragments ds \<noteq> [] \<Longrightarrow>
      fault env UpdateSent = Some e1 \<Longrightarrow> fault env UpdateFailed = Some e2 \<Longrightarrow>
      events (w_res (fst r)) = events (w_res w) @ map ChunkEvent (fragments ds)
      \<and> ended (w_res (fst r)) = ended (w_res w) \<and> snd r = Some e2 \<and> w_db (fst r) = d"
    and send_create_throws_update_throws: "openai env = (\<lambda>_. CreateThrows e) \<Longrightarrow>
      fault env UpdateFailed = Some e2 \<Longrightarrow>
      events (w_res (fst r)) = events (w_res w)
      \<and> ended (w_res (fst r)) = ended (w_res w) \<and> snd r = Some e2 \<and> w_db (fst r) = d"
    and send_stream_throws_update_throws: "openai env = (\<lambda>_. CreateOk ds (StreamThrows e)) \<Longrightarrow>
      fault env UpdateFailed = Some e2 \<Longrightarrow>
      events (w_res (fst r)) = events (w_res w) @ map ChunkEvent (fragments ds)
      \<and> ended (w_res (fst r)) = ended (w_res w) \<and> snd r = Some e2 \<and> w_db (fst r) = d"
    and send_empty_update_throws: "openai env = (\<lambda>_. CreateOk ds Exhausted) \<Longrightarrow> fragments ds = [] \<Longrightarrow>
      fault env UpdateFailed = Some e2 \<Longrightarrow>
      events (w_res (fst r)) = events (w_res w)
      \<and> ended (w_res (fst r)) = ended (w_res w) \<and> snd r = Some e2 \<and> w_db (fst r) = d"
proof -
  obtain hist w' where pm: "r = stream_response env (trim c) (uuid2 env) hist w'"
    and w': "events (w_res w') = events (w_res w)" "ended (w_res w') = ended (w_res w)" "w_db w' = d"
    unfolding r_def d_def using post_messages_streams [OF v] by blast
  show "openai env = (\<lambda>_. CreateOk ds Exhausted) \<Longrightarrow> fragments ds \<noteq> [] \<Longrightarrow>
      fault env UpdateSent = None \<Longrightarrow>
      events (w_res (fst r)) = events (w_res w) @ map ChunkEvent (fragments ds)
        @ [DoneEvent (uuid2 env) (concat (fragments ds))]"
    unfolding pm using done_ok [of env hist "trim c" ds "uuid2 env" w'] w' by simp
  show "openai env = (\<lambda>_. CreateThrows e) \<Longrightarrow> fault env UpdateFailed = None \<Longrightarrow>
      events (w_res (fst r)) = events (w_res w) @ [ErrorEvent (friendly_message (err_message e))]"
    unfolding pm using create_throws_ok [of env hist "trim c" e "uuid2 env" w'] w' by simp
  show "openai env = (\<lambda>_. CreateOk ds (StreamThrows e)) \<Longrightarrow>
      fault env UpdateFailed = None \<Longrightarrow>
      events (w_res (fst r)) = events (w_res w) @ map ChunkEvent (fragments ds)
        @ [ErrorEvent (friendly_message (err_message e))]"
    unfolding pm using stream_throws_ok [of env hist "trim c" ds e "uuid2 env" w'] w' by simp
  show "openai env = (\<lambda>_. CreateOk ds Exhausted) \<Longrightarrow> fragments ds = [] \<Longrightarrow>
      fault env UpdateFailed = None \<Longrightarrow>
      events (w_res (fst r)) = events (w_res w)
        @ [ErrorEvent ''AI service temporarily unavailable. Please try again.'']"
    unfolding pm using empty_ok [of env hist "trim c" ds "uuid2 env" w'] w' by simp
  show "openai env = (\<lambda>_. CreateOk ds Exhausted) \<Longrightarrow> fragments ds \<noteq> [] \<Longrightarrow>
      fault env UpdateSent = Some e1 \<Longrightarrow> fault env UpdateFailed = None \<Longrightarrow>
      events (w_res (fst r)) = events (w_res w) @ map ChunkEvent (fragments ds)
          @ [ErrorEvent (friendly_message (err_message e1))]
      \<and> ended (w_res (fst r)) \<and> snd r = None
      \<and> ConsoleError ''OpenAI API error:'' (err_message e1) \<in> set (w_log (fst r))
      \<and> w_db (fst r) = fst (update_message_error Failed (friendly_message (err_message e1)) (uuid2 env) d)"
    unfolding pm using done_update_throws [of env hist "trim c" ds e1 "uuid2 env" w'] w' by simp
  show "openai env = (\<lambda>_. CreateOk ds Exhausted) \<Longrightarrow> fragments ds \<noteq> [] \<Longrightarrow>
      fault env UpdateSent = Some e1 \<Longrightarrow> fault env UpdateFailed = Some e2 \<Longrightarrow>
      events (w_res (fst r)) = events (w_res w) @ map ChunkEvent (fragments ds)
      \<and> ended (w_res (fst r)) = ended (w_res w) \<and> snd r = Some e2 \<and> w_db (fst r) = d"
    unfolding pm using both_updates_throw [of env hist "trim c" ds e1 e2 "uuid2 env" w'] w' by simp
  show "openai env = (\<lambda>_. CreateThrows e) \<Longrightarrow>
      fault env UpdateFailed = Some e2 \<Longrightarrow>
      events (w_res (fst r)) = events (w_res w)
      \<and> ended (w_res (fst r)) = ended (w_res w) \<and> snd r = Some e2 \<and> w_db (fst r) = d"
    unfolding pm using create_throws_update_throws [of env hist "trim c" e e2 "uuid2 env" w'] w' by simp
  show "openai env = (\<lambda>_. CreateOk ds (StreamThrows e)) \<Longrightarrow>
      fault env UpdateFailed = Some e2 \<Longrightarrow>
      events (w_res (fst r)) = events (w_res w) @ map ChunkEvent (fragments ds)
      \<and> ended (w_res (fst r)) = ended (w_res w) \<and> snd r = Some e2 \<and> w_db (fst r) = d"
    unfolding pm using stream_throws_update_throws [of env hist "trim c" ds e e2 "uuid2 env" w'] w' by simp
  show "openai env = (\<lambda>_. CreateOk ds Exhausted) \<Longrightarrow> fragments ds = [] \<Longrightarrow>
      fault env UpdateFailed = Some e2 \<Longrightarrow>
      events (w_res (fst r)) = events (w_res w)
      \<and> ended (w_res (fst r)) = ended (w_res w) \<and> snd r = Some e2 \<and> w_db (fst r) = d"
    unfolding pm using empty_update_throws [of env hist "trim c" ds e2 "uuid2 env" w'] w' by simp
qed

section \<open>The claims\<close>

text \<open>
  C1. For a valid send whose setup succeeds and whose provider completes with a non-empty
  text: when the update of the done path throws, the exception is caught inside the
  generation client, logged there, and handed to the error callback; when that callback's
  update succeeds, the client gets the chunk events and then exactly one terminal event,
  an error event carrying the translation of the storage exception (no done event), the
  response is ended, no exception is left unhandled, and the row is marked failed.
\<close>

theorem finalization_storage_failure:
  "trim c \<noteq> [] \<and> length (trim c) \<le> 10000 \<and> fault env SelectConversation = None \<and>
   select_conversation (w_db w) cid \<noteq> Undefined \<and> setup_fault env = None \<and>
   openai env = (\<lambda>_. CreateOk ds Exhausted) \<and> fragments ds \<noteq> [] \<and>
   fault env UpdateSent = Some e1 \<and> fault env UpdateFailed = None \<longrightarrow>
     (let r = post_messages env cid (Text c) w;
          d = after_setup env cid (trim c) (w_db w)
      in events (w_res (fst r)) = events (w_res w) @ map ChunkEvent (fragments ds)
             @ [ErrorEvent (friendly_message (err_message e1))]
         \<and> ended (w_res (fst r)) \<and> snd r = None
         \<and> ConsoleError ''OpenAI API error:'' (err_message e1) \<in> set (w_log (fst r))
         \<and> w_db (fst r) =
             fst (update_message_error Failed (friendly_message (err_message e1)) (uuid2 env) d))"
  unfolding Let_def
  using send_done_update_throws [of c env w cid ds e1]
  by blast

theorem finalization_storage_failure_witness:
  "trim [0x48, 0x69] \<noteq> [] \<and> length (trim [0x48, 0x69]) \<le> 10000
   \<and> select_conversation (w_db sample_world) ''c-1'' \<noteq> Undefined
   \<and> setup_fault (sample_env (\<lambda>s. if s = UpdateSent then Some locked else None)
        (\<lambda>_. CreateOk [Some [0x4F]] Exhausted)) = None
   \<and> fault (sample_env (\<lambda>s. if s = UpdateSent then Some locked else None)
        (\<lambda>_. CreateOk [Some [0x4F]] Exhausted)) UpdateSent = Some locked
   \<and> events (w_res (fst (post_messages
        (sample_env (\<lambda>s. if s = UpdateSent then Some locked else None)
           (\<lambda>_. CreateOk [Some [0x4F]] Exhausted))
        ''c-1'' (Text [0x48, 0x69]) sample_world))) =
       [ChunkEvent [0x4F], ErrorEvent ''AI service temporarily unavailable. Please try again.'']
   \<and> snd (post_messages
        (sample_env (\<lambda>s. if s = UpdateSent then Some locked else None)
           (\<lambda>_. CreateOk [Some [0x4F]] Exhausted))
        ''c-1'' (Text [0x48, 0x69]) sample_world) = None"
proof -
  let ?E = "sample_env (\<lambda>s. if s = UpdateSent then Some locked else None)
        (\<lambda>_. CreateOk [Some [0x4F]] Exhausted)"
  have v: "trim [0x48, 0x69] \<noteq> [] \<and> length (trim [0x48, 0x69]) \<le> 10000
      \<and> fault ?E SelectConversation = None
      \<and> select_conversation (w_db sample_world) ''c-1'' \<noteq> Undefined \<and> setup_fault ?E = None"
    using sample_conversation_exists by (simp add: trim_Hi sample_env_def setup_fault_def)
  have e: "openai ?E = (\<lambda>_. CreateOk [Some [0x4F]] Exhausted) \<and> fragments [Some [0x4F :: 16 word]] \<noteq> []
      \<and> fault ?E UpdateSent = Some locked \<and> fault ?E UpdateFailed = None"
    by (simp add: sample_env_def)
  have "events (w_res (fst (post_messages ?E ''c-1'' (Text [0x48, 0x69]) sample_world))) =
        events (w_res sample_world) @ map ChunkEvent (fragments [Some [0x4F]])
          @ [ErrorEvent (friendly_message (err_message locked))]
      \<and> snd (post_messages ?E ''c-1'' (Text [0x48, 0x69]) sample_world) = None"
    using v e
      finalization_storage_failure [of "[0x48, 0x69]" ?E sample_world "''c-1''" "[Some [0x4F]]" locked]
    unfolding Let_def by blast
  then show ?thesis using v e
    by (simp add: friendly_locked sample_world_def fresh_response_def)
qed

theorem storage_failure_decides_terminal_event_counterexample:
  "events (w_res (fst (post_messages
        (sample_env (\<lambda>s. if s = UpdateSent then Some locked else None)
           (\<lambda>_. CreateOk [Some [0x59, 0x65, 0x73]] Exhausted))
        ''c-1'' (Text [0x48, 0x69]) sample_world))) =
       [ChunkEvent [0x59, 0x65, 0x73],
        ErrorEvent ''AI service temporarily unavailable. Please try again.'']
   \<and> events (w_res (fst (post_messages
        (sample_env (\<lambda>s. if s = UpdateFailed then Some locked else None)
           (\<lambda>_. CreateThrows (JsError ''Connection error.'')))
        ''c-1'' (Text [0x48, 0x69]) sample_world))) = []
   \<and> \<not> ended (w_res (fst (post_messages
        (sample_env (\<lambda>s. if s = UpdateFailed then Some locked else None)
           (\<lambda>_. CreateThrows (JsError ''Connection error.'')))
        ''c-1'' (Text [0x48, 0x69]) sample_world)))
   \<and> snd (post_messages
        (sample_env (\<lambda>s. if s = UpdateFailed then Some locked else None)
           (\<lambda>_. CreateThrows (JsError ''Connection error.'')))
        ''c-1'' (Text [0x48, 0x69]) sample_world) = Some locked"
proof -
  let ?E1 = "sample_env (\<lambda>s. if s = UpdateSent then Some locked else None)
           (\<lambda>_. CreateOk [Some [0x59, 0x65, 0x73]] Exhausted)"
  let ?E2 = "sample_env (\<lambda>s. if s = UpdateFailed then Some locked else None)
           (\<lambda>_. CreateThrows (JsError ''Connection error.''))"
  have v1: "trim [0x48, 0x69] \<noteq> []" "length (trim [0x48, 0x69]) \<le> 10000"
    "fault ?E1 SelectConversation = None" "select_conversation (w_db sample_world) ''c-1'' \<noteq> Undefined"
    "setup_fault ?E1 = None"
    using sample_conversation_exists by (simp_all add: trim_Hi sample_env_def setup_fault_def)
  have e1: "openai ?E1 = (\<lambda>_. CreateOk [Some [0x59, 0x65, 0x73]] Exhausted)"
    "fragments [Some [0x59, 0x65, 0x73 :: 16 word]] \<noteq> []"
    "fault ?E1 UpdateSent = Some locked" "fault ?E1 UpdateFailed = None"
    by (simp_all add: sample_env_def)
  have v2: "trim [0x48, 0x69] \<noteq> []" "length (trim [0x48, 0x69]) \<le> 10000"
    "fault ?E2 SelectConversation = None" "select_conversation (w_db sample_world) ''c-1'' \<noteq> Undefined"
    "setup_fault ?E2 = None"
    using sample_conversation_exists by (simp_all add: trim_Hi sample_env_def setup_fault_def)
  have e2: "openai ?E2 = (\<lambda>_. CreateThrows (JsError ''Connection error.''))"
    "fault ?E2 UpdateFailed = Some locked"
    by (simp_all add: sample_env_def)
  show ?thesis
    using send_done_update_throws [OF v1 e1] send_create_throws_update_throws [OF v2 e2]
    by (simp add: friendly_locked sample_world_def fresh_response_def)
qed

text \<open>
  C2. For a valid send whose setup succeeds and whose finalising update does not throw:
  when the provider yields the fragments and completes with a non-empty text, the events
  written are the chunk events of the fragments in order followed by one done event with
  their concatenation; when the generation fails (the request throws, the stream throws
  after some fragments, or no text arrives), they are the chunk events followed by one
  error event and no done event.
\<close>

theorem send_events_follow_generation:
  "trim c \<noteq> [] \<and> length (trim c) \<le> 10000 \<and> fault env SelectConversation = None \<and>
   select_conversation (w_db w) cid \<noteq> Undefined \<and> setup_fault env = None \<longrightarrow>
     (openai env = (\<lambda>_. CreateOk ds Exhausted) \<and> fragments ds \<noteq> [] \<and> fault env UpdateSent = None \<longrightarrow>
        events (w_res (fst (post_messages env cid (Text c) w))) =
          events (w_res w) @ map ChunkEvent (fragments ds) @ [DoneEvent (uuid2 env) (concat (fragments ds))])
     \<and> (openai env = (\<lambda>_. CreateThrows e) \<and> fault env UpdateFailed = None \<longrightarrow>
        events (w_res (fst (post_messages env cid (Text c) w))) =
          events (w_res w) @ [ErrorEvent (friendly_message (err_message e))])
     \<and> (openai env = (\<lambda>_. CreateOk ds (StreamThrows e)) \<and> fault env UpdateFailed = None \<longrightarrow>
        events (w_res (fst (post_messages env cid (Text c) w))) =
          events (w_res w) @ map ChunkEvent (fragments ds) @ [ErrorEvent (friendly_message (err_message e))])
     \<and> (openai env = (\<lambda>_. CreateOk ds Exhausted) \<and> fragments ds = [] \<and> fault env UpdateFailed = None \<longrightarrow>
        events (w_res (fst (post_messages env cid (Text c) w))) =
          events (w_res w) @ [ErrorEvent ''AI service temporarily unavailable. Please try again.''])"
  using send_done [of c env w cid ds] send_create_throws [of c env w cid e]
    send_stream_throws [of c env w cid ds e] send_empty [of c env w cid ds]
  by blast

theorem send_events_follow_generation_witness:
  "trim [0x48, 0x69] \<noteq> [] \<and> length (trim [0x48, 0x69]) \<le> 10000
   \<and> select_conversation (w_db sample_world) ''c-1'' \<noteq> Undefined
   \<and> setup_fault (sample_env (\<lambda>_. None) (\<lambda>_. CreateOk [Some [0x4F], None, Some [0x4B]] Exhausted)) = None
   \<and> fragments [Some [0x4F], None, Some [0x4B :: 16 word]] \<noteq> []
   \<and> events (w_res (fst (post_messages
        (sample_env (\<lambda>_. None) (\<lambda>_. CreateOk [Some [0x4F], None, Some [0x4B]] Exhausted))
        ''c-1'' (Text [0x48, 0x69]) sample_world))) =
       [ChunkEvent [0x4F], ChunkEvent [0x4B], DoneEvent ''a-1'' [0x4F, 0x4B]]
   \<and> events (w_res (fst (post_messages
        (sample_env (\<lambda>_. None) (\<lambda>_. CreateOk [Some [0x4F]] (StreamThrows (JsError ''rate limit reached''))))
        ''c-1'' (Text [0x48, 0x69]) sample_world))) =
       [ChunkEvent [0x4F], ErrorEvent ''AI service is busy. Please try again in a moment.'']"
proof -
  let ?E1 = "sample_env (\<lambda>_. None) (\<lambda>_. CreateOk [Some [0x4F], None, Some [0x4B]] Exhausted)"
  let ?E2 = "sample_env (\<lambda>_. None) (\<lambda>_. CreateOk [Some [0x4F]] (StreamThrows (JsError ''rate limit reached'')))"
  have v: "trim [0x48, 0x69] \<noteq> [] \<and> length (trim [0x48, 0x69]) \<le> 10000
      \<and> select_conversation (w_db sample_world) ''c-1'' \<noteq> Undefined"
    using sample_conversation_exists by (simp add: trim_Hi)
  have e1: "fault ?E1 SelectConversation = None \<and> setup_fault ?E1 = None
      \<and> openai ?E1 = (\<lambda>_. CreateOk [Some [0x4F], None, Some [0x4B]] Exhausted)
      \<and> fragments [Some [0x4F], None, Some [0x4B :: 16 word]] \<noteq> [] \<and> fault ?E1 UpdateSent = None"
    by (simp add: sample_env_def setup_fault_def)
  have e2: "fault ?E2 SelectConversation = None \<and> setup_fault ?E2 = None
      \<and> openai ?E2 = (\<lambda>_. CreateOk [Some [0x4F]] (StreamThrows (JsError ''rate limit reached'')))
      \<and> fault ?E2 UpdateFailed = None"
    by (simp add: sample_env_def setup_fault_def)
  have 1: "events (w_res (fst (post_messages ?E1 ''c-1'' (Text [0x48, 0x69]) sample_world))) =
      events (w_res sample_world) @ map ChunkEvent (fragments [Some [0x4F], None, Some [0x4B]])
        @ [DoneEvent (uuid2 ?E1) (concat (fragments [Some [0x4F], None, Some [0x4B]]))]"
    using v e1
      send_events_follow_generation [of "[0x48, 0x69]" ?E1 sample_world "''c-1''"
        "[Some [0x4F], None, Some [0x4B]]" NonError]
    by blast
  have 2: "events (w_res (fst (post_messages ?E2 ''c-1'' (Text [0x48, 0x69]) sample_world))) =
      events (w_res sample_world) @ map ChunkEvent (fragments [Some [0x4F]])
        @ [ErrorEvent (friendly_message (err_message (JsError ''rate limit reached'')))]"
    using v e2
      send_events_follow_generation [of "[0x48, 0x69]" ?E2 sample_world "''c-1''"
        "[Some [0x4F]]" "JsError ''rate limit reached''"]
    by blast
  have 3: "events (w_res sample_world) = []" "uuid2 ?E1 = ''a-1''"
    "friendly_message (err_message (JsError ''rate limit reached'')) =
       ''AI service is busy. Please try again in a moment.''"
    by (simp_all add: sample_world_def fresh_response_def sample_env_def friendly_message_def err_message_def)
  show ?thesis using v e1 1 2 unfolding 3 by simp
qed

theorem done_update_failure_emits_error_counterexample:
  "fragments [Some [0x4F], Some [0x4B :: 16 word]] = [[0x4F], [0x4B]]
   \<and> events (w_res (fst (post_messages
        (sample_env (\<lambda>s. if s = UpdateSent then Some locked else None)
           (\<lambda>_. CreateOk [Some [0x4F], Some [0x4B]] Exhausted))
        ''c-1'' (Text [0x48, 0x69]) sample_world))) =
       [ChunkEvent [0x4F], ChunkEvent [0x4B],
        ErrorEvent ''AI service temporarily unavailable. Please try again.'']"
proof -
  let ?E = "sample_env (\<lambda>s. if s = UpdateSent then Some locked else None)
           (\<lambda>_. CreateOk [Some [0x4F], Some [0x4B]] Exhausted)"
  have v: "trim [0x48, 0x69] \<noteq> []" "length (trim [0x48, 0x69]) \<le> 10000"
    "fault ?E SelectConversation = None" "select_conversation (w_db sample_world) ''c-1'' \<noteq> Undefined"
    "setup_fault ?E = None"
    using sample_conversation_exists by (simp_all add: trim_Hi sample_env_def setup_fault_def)
  have e: "openai ?E = (\<lambda>_. CreateOk [Some [0x4F], Some [0x4B]] Exhausted)"
    "fragments [Some [0x4F], Some [0x4B :: 16 word]] \<noteq> []"
    "fault ?E UpdateSent = Some locked" "fault ?E UpdateFailed = None"
    by (simp_all add: sample_env_def)
  show ?thesis
    using send_done_update_throws [OF v e]
    by (simp add: friendly_locked sample_world_def fresh_response_def)
qed

text \<open>
  C3. The setup is one transaction. When no statement in it throws, the user message
  (status sent) and the placeholder (status sending, empty content) are appended, the
  conversation is touched, and a valid send starts streaming from that database. When any
  statement throws, the transaction rethrows and the tables \<^verbatim>\<open>messages\<close> and
  \<^verbatim>\<open>conversations\<close> are as before, and a valid send is answered with status 500. Either
  way the table \<^verbatim>\<open>messages\<close> afterwards holds both new rows or neither.
\<close>

theorem setup_is_all_or_nothing:
  "(setup_fault env = None \<longrightarrow>
      transaction (setup_body env cid t) d =
        (after_setup env cid t d,
         Inr (uuid2 env, history_of (after_setup env cid t d) cid (uuid2 env))))
   \<and> (setup_fault env = Some e \<longrightarrow>
      snd (transaction (setup_body env cid t) d) = Inl e
      \<and> messages (fst (transaction (setup_body env cid t) d)) = messages d
      \<and> conversations (fst (transaction (setup_body env cid t) d)) = conversations d)
   \<and> (messages (fst (transaction (setup_body env cid t) d)) = messages d
      \<or> messages (fst (transaction (setup_body env cid t) d)) =
          messages d @ [user_row env cid t d, assistant_row env cid d])
   \<and> messages (after_setup env cid t d) =
        messages d @
          [\<lparr>rowid = next_rowid (messages d), msg_id = uuid1 env, conversation_id = cid,
            msg_role = User, msg_content = store_text t, status = Sent, error_message = None,
            created_at = now env\<rparr>,
           \<lparr>rowid = Suc (next_rowid (messages d)), msg_id = uuid2 env, conversation_id = cid,
            msg_role = Assistant, msg_content = [], status = Sending, error_message = None,
            created_at = now env\<rparr>]
   \<and> conversations (after_setup env cid t d) =
        map (\<lambda>c. if conv_id c = cid then c\<lparr>updated_at := now env\<rparr> else c) (conversations d)
   \<and> (trim c \<noteq> [] \<and> length (trim c) \<le> 10000 \<and> fault env SelectConversation = None \<and>
       select_conversation (w_db w) cid \<noteq> Undefined \<and> setup_fault env = None \<longrightarrow>
         (\<exists>hist w'. post_messages env cid (Text c) w =
              stream_response env (trim c) (uuid2 env) hist w'
            \<and> w_db w' = after_setup env cid (trim c) (w_db w)))
   \<and> (trim c \<noteq> [] \<and> length (trim c) \<le> 10000 \<and> fault env SelectConversation = None \<and>
       select_conversation (w_db w) cid \<noteq> Undefined \<and> \<not> headersSent (w_res w) \<and>
       setup_fault env = Some e \<longrightarrow>
         snd (post_messages env cid (Text c) w) = None
         \<and> messages (w_db (fst (post_messages env cid (Text c) w))) = messages (w_db w)
         \<and> conversations (w_db (fst (post_messages env cid (Text c) w))) = conversations (w_db w)
         \<and> w_res (fst (post_messages env cid (Text c) w)) =
             send_json 500 (ErrorBody ''Failed to process message'') (w_res w)
         \<and> w_log (fst (post_messages env cid (Text c) w)) =
             w_log w @ [Info ''Posting new message to conversation'',
                        ErrorWithThrown ''Error processing message'' e])"
proof -
  have 1: "setup_fault env = None \<longrightarrow>
      transaction (setup_body env cid t) d =
        (after_setup env cid t d,
         Inr (uuid2 env, history_of (after_setup env cid t d) cid (uuid2 env)))"
    by (simp add: transaction_setup)
  have 2: "setup_fault env = Some e \<longrightarrow>
      snd (transaction (setup_body env cid t) d) = Inl e
      \<and> messages (fst (transaction (setup_body env cid t) d)) = messages d
      \<and> conversations (fst (transaction (setup_body env cid t) d)) = conversations d"
    by (simp add: transaction_setup)
  have 3: "messages (fst (transaction (setup_body env cid t) d)) = messages d
      \<or> messages (fst (transaction (setup_body env cid t) d)) =
          messages d @ [user_row env cid t d, assistant_row env cid d]"
    by (cases "setup_fault env") (simp_all add: transaction_setup after_setup_def)
  have 4: "messages (after_setup env cid t d) =
        messages d @
          [\<lparr>rowid = next_rowid (messages d), msg_id = uuid1 env, conversation_id = cid,
            msg_role = User, msg_content = store_text t, status = Sent, error_message = None,
            created_at = now env\<rparr>,
           \<lparr>rowid = Suc (next_rowid (messages d)), msg_id = uuid2 env, conversation_id = cid,
            msg_role = Assistant, msg_content = [], status = Sending, error_message = None,
            created_at = now env\<rparr>]"
    by (simp add: after_setup_def user_row_def assistant_row_def)
  have 5: "conversations (after_setup env cid t d) =
        map (\<lambda>c. if conv_id c = cid then c\<lparr>updated_at := now env\<rparr> else c) (conversations d)"
    by (simp add: after_setup_def)
  have 6: "trim c \<noteq> [] \<and> length (trim c) \<le> 10000 \<and> fault env SelectConversation = None \<and>
       select_conversation (w_db w) cid \<noteq> Undefined \<and> setup_fault env = None \<longrightarrow>
         (\<exists>hist w'. post_messages env cid (Text c) w =
              stream_response env (trim c) (uuid2 env) hist w'
            \<and> w_db w' = after_setup env cid (trim c) (w_db w))"
    using post_messages_streams [of c env w cid] by blast
  have 7: "trim c \<noteq> [] \<and> length (trim c) \<le> 10000 \<and> fault env SelectConversation = None \<and>
       select_conversation (w_db w) cid \<noteq> Undefined \<and> \<not> headersSent (w_res w) \<and>
       setup_fault env = Some e \<longrightarrow>
         snd (post_messages env cid (Text c) w) = None
         \<and> messages (w_db (fst (post_messages env cid (Text c) w))) = messages (w_db w)
         \<and> conversations (w_db (fst (post_messages env cid (Text c) w))) = conversations (w_db w)
         \<and> w_res (fst (post_messages env cid (Text c) w)) =
             send_json 500 (ErrorBody ''Failed to process message'') (w_res w)
         \<and> w_log (fst (post_messages env cid (Text c) w)) =
             w_log w @ [Info ''Posting new message to conversation'',
                        ErrorWithThrown ''Error processing message'' e]"
    using post_messages_setup_fails [of c env w cid e] by simp
  show ?thesis using 1 2 3 4 5 6 7 by (intro conjI)
qed

theorem setup_is_all_or_nothing_witness:
  "trim [0x48, 0x69] \<noteq> [] \<and> length (trim [0x48, 0x69]) \<le> 10000
   \<and> fault (sample_env (\<lambda>s. if s = InsertAssistant then Some locked else None) (\<lambda>_. CreateThrows NonError))
        SelectConversation = None
   \<and> select_conversation (w_db sample_world) ''c-1'' \<noteq> Undefined
   \<and> \<not> headersSent (w_res sample_world)
   \<and> setup_fault (sample_env (\<lambda>s. if s = InsertAssistant then Some locked else None) (\<lambda>_. CreateThrows NonError))
        = Some locked
   \<and> snd (transaction (setup_body
          (sample_env (\<lambda>s. if s = InsertAssistant then Some locked else None) (\<lambda>_. CreateThrows NonError))
          ''c-1'' [0x48, 0x69]) sample_database) = Inl locked
   \<and> messages (fst (transaction (setup_body
          (sample_env (\<lambda>s. if s = InsertAssistant then Some locked else None) (\<lambda>_. CreateThrows NonError))
          ''c-1'' [0x48, 0x69]) sample_database)) = []
   \<and> messages (w_db (fst (post_messages
          (sample_env (\<lambda>s. if s = InsertAssistant then Some locked else None) (\<lambda>_. CreateThrows NonError))
          ''c-1'' (Text [0x48, 0x69]) sample_world))) = []
   \<and> w_res (fst (post_messages
          (sample_env (\<lambda>s. if s = InsertAssistant then Some locked else None) (\<lambda>_. CreateThrows NonError))
          ''c-1'' (Text [0x48, 0x69]) sample_world)) =
       send_json 500 (ErrorBody ''Failed to process message'') fresh_response
   \<and> setup_fault (sample_env (\<lambda>_. None) (\<lambda>_. CreateThrows NonError)) = None
   \<and> fst (transaction (setup_body (sample_env (\<lambda>_. None) (\<lambda>_. CreateThrows NonError))
          ''c-1'' [0x48, 0x69]) sample_database) =
       after_setup (sample_env (\<lambda>_. None) (\<lambda>_. CreateThrows NonError)) ''c-1'' [0x48, 0x69] sample_database
   \<and> (\<exists>hist w'. post_messages (sample_env (\<lambda>_. None) (\<lambda>_. CreateThrows NonError))
           ''c-1'' (Text [0x48, 0x69]) sample_world =
         stream_response (sample_env (\<lambda>_. None) (\<lambda>_. CreateThrows NonError)) (trim [0x48, 0x69])
           (uuid2 (sample_env (\<lambda>_. None) (\<lambda>_. CreateThrows NonError))) hist w'
         \<and> w_db w' = after_setup (sample_env (\<lambda>_. None) (\<lambda>_. CreateThrows NonError)) ''c-1''
             (trim [0x48, 0x69]) (w_db sample_world))"
proof -
  let ?E = "sample_env (\<lambda>s. if s = InsertAssistant then Some locked else None) (\<lambda>_. CreateThrows NonError)"
  let ?F = "sample_env (\<lambda>_. None) (\<lambda>_. CreateThrows NonError)"
  have h: "trim [0x48, 0x69] \<noteq> [] \<and> length (trim [0x48, 0x69]) \<le> 10000
      \<and> fault ?E SelectConversation = None
      \<and> select_conversation (w_db sample_world) ''c-1'' \<noteq> Undefined
      \<and> \<not> headersSent (w_res sample_world)
      \<and> setup_fault ?E = Some locked"
  proof (intro conjI)
    show "trim [0x48, 0x69] \<noteq> []" "length (trim [0x48, 0x69]) \<le> 10000"
      by (simp_all add: trim_Hi)
    show "fault ?E SelectConversation = None" by (simp add: sample_env_def)
    show "select_conversation (w_db sample_world) ''c-1'' \<noteq> Undefined"
      by (rule sample_conversation_exists)
    show "\<not> headersSent (w_res sample_world)"
      by (simp add: sample_world_def headersSent_def fresh_response_def)
    show "setup_fault ?E = Some locked" by (simp add: setup_fault_def sample_env_def)
  qed
  have h0: "fault ?F SelectConversation = None \<and> setup_fault ?F = None"
    by (simp add: setup_fault_def sample_env_def)
  have s: "messages sample_database = []" "messages (w_db sample_world) = []"
    "w_res sample_world = fresh_response"
    by (simp_all add: sample_database_def sample_world_def)
  note thE = setup_is_all_or_nothing [where env = ?E and e = locked and cid = "''c-1''"
      and t = "[0x48, 0x69]" and d = sample_database and c = "[0x48, 0x69]" and w = sample_world]
  note thF = setup_is_all_or_nothing [where env = ?F and e = locked and cid = "''c-1''"
      and t = "[0x48, 0x69]" and d = sample_database and c = "[0x48, 0x69]" and w = sample_world]
  from thE h
  have 1: "snd (transaction (setup_body ?E ''c-1'' [0x48, 0x69]) sample_database) = Inl locked"
    "messages (fst (transaction (setup_body ?E ''c-1'' [0x48, 0x69]) sample_database)) = messages sample_database"
    "messages (w_db (fst (post_messages ?E ''c-1'' (Text [0x48, 0x69]) sample_world))) = messages (w_db sample_world)"
    "w_res (fst (post_messages ?E ''c-1'' (Text [0x48, 0x69]) sample_world)) =
       send_json 500 (ErrorBody ''Failed to process message'') (w_res sample_world)"
    by blast+
  have 2: "transaction (setup_body ?F ''c-1'' [0x48, 0x69]) sample_database =
        (after_setup ?F ''c-1'' [0x48, 0x69] sample_database,
         Inr (uuid2 ?F, history_of (after_setup ?F ''c-1'' [0x48, 0x69] sample_database) ''c-1'' (uuid2 ?F)))"
    using thF h0 by (elim conjE) simp
  have 3: "\<exists>hist w'. post_messages ?F ''c-1'' (Text [0x48, 0x69]) sample_world =
         stream_response ?F (trim [0x48, 0x69]) (uuid2 ?F) hist w'
         \<and> w_db w' = after_setup ?F ''c-1'' (trim [0x48, 0x69]) (w_db sample_world)"
    using thF h h0 by blast
  show ?thesis using h h0 1 2 3 by (intro conjI) (simp_all add: s)
qed

text \<open>
  C4. A failing request makes exactly one call of the error callback, with the translation
  of the error's message. The tests of the catch block compare case-sensitively with
  \<^verbatim>\<open>rate limit\<close> and \<^verbatim>\<open>insufficient_quota\<close>: the message of a rate-limit error of the
  provider, which begins \<^verbatim>\<open>429 Rate limit reached\<close>, matches none of them and is answered
  with the generic message instead of the busy message, which only the spelling
  \<^verbatim>\<open>rate limit\<close> obtains.
\<close>

theorem rate_limit_error_gets_generic_message:
  "calls_of ce (\<lambda>_. CreateThrows e) um onChunk onError onDone opts None s =
       [OnError (friendly_message (err_message e))]
   \<and> friendly_message
        ''429 Rate limit reached for gpt-4o-mini in organization org-1 on requests per min (RPM): Limit 3, Used 3, Requested 1.'' =
       ''AI service temporarily unavailable. Please try again.''
   \<and> calls_of (\<lambda>_ s. s)
        (\<lambda>_. CreateThrows (JsError
           ''429 Rate limit reached for gpt-4o-mini in organization org-1 on requests per min (RPM): Limit 3, Used 3, Requested 1.''))
        [0x51] (\<lambda>x s. (s, None)) (\<lambda>x s. (s, None)) (\<lambda>x s. (s, None))
        \<lparr>instructions = None, conversationHistory = None\<rparr> None () =
       [OnError ''AI service temporarily unavailable. Please try again.'']
   \<and> ''AI service temporarily unavailable. Please try again.'' \<noteq>
       ''AI service is busy. Please try again in a moment.''
   \<and> friendly_message ''429 rate limit reached'' = ''AI service is busy. Please try again in a moment.''"
proof -
  have 1: "calls_of ce (\<lambda>_. CreateThrows e) um onChunk onError onDone opts None s =
       [OnError (friendly_message (err_message e))]"
    by (simp add: calls_create_throws)
  have 2: "friendly_message
        ''429 Rate limit reached for gpt-4o-mini in organization org-1 on requests per min (RPM): Limit 3, Used 3, Requested 1.'' =
       ''AI service temporarily unavailable. Please try again.''"
    by (simp add: friendly_message_def)
  have 3: "calls_of (\<lambda>_ s. s)
        (\<lambda>_. CreateThrows (JsError
           ''429 Rate limit reached for gpt-4o-mini in organization org-1 on requests per min (RPM): Limit 3, Used 3, Requested 1.''))
        [0x51] (\<lambda>x s. (s, None)) (\<lambda>x s. (s, None)) (\<lambda>x s. (s, None))
        \<lparr>instructions = None, conversationHistory = None\<rparr> None () =
       [OnError ''AI service temporarily unavailable. Please try again.'']"
    by (simp add: calls_create_throws err_message_def 2)
  have 4: "friendly_message ''429 rate limit reached'' = ''AI service is busy. Please try again in a moment.''"
    by (simp add: friendly_message_def)
  show ?thesis using 1 2 3 4 by simp
qed

text \<open>
  C5. A stream that is not cancelled and ends without any non-empty fragment ends in one
  call of the error callback with the generic message and no call of the done callback;
  and in every run, whatever the provider, the callbacks and the cancellation do, the done
  callback is only ever called with a non-empty text.
\<close>

theorem empty_response_is_an_error:
  "(fragments ds = [] \<longrightarrow>
      calls_of ce (\<lambda>_. CreateOk ds Exhausted) um onChunk onError onDone opts None s =
        [OnError ''AI service temporarily unavailable. Please try again.''])
   \<and> (\<forall>t. OnDone t \<in> set (calls_of ce provider um onChunk onError onDone opts ca s) \<longrightarrow> t \<noteq> [])"
  using calls_empty_response [of ds ce um onChunk onError onDone opts s]
    done_calls_nonempty [of _ ce provider um onChunk onError onDone opts ca s]
  by blast

theorem empty_response_is_an_error_witness:
  "fragments [None, Some [], None] = []
   \<and> calls_of (\<lambda>_ s. s) (\<lambda>_. CreateOk [None, Some [], None] Exhausted)
        [0x51] (\<lambda>x s. (s, None)) (\<lambda>x s. (s, None)) (\<lambda>x s. (s, None))
        \<lparr>instructions = None, conversationHistory = None\<rparr> None () =
      [OnError ''AI service temporarily unavailable. Please try again.'']
   \<and> OnDone [0x48, 0x69] \<in> set (calls_of (\<lambda>_ s. s) (\<lambda>_. CreateOk [Some [0x48], Some [0x69]] Exhausted)
        [0x51] (\<lambda>x s. (s, None)) (\<lambda>x s. (s, None)) (\<lambda>x s. (s, None))
        \<lparr>instructions = None, conversationHistory = None\<rparr> None ())
   \<and> [0x48, 0x69] \<noteq> ([] :: utf16)"
proof -
  have d: "OnDone [0x48, 0x69] \<in> set (calls_of (\<lambda>_ s. s) (\<lambda>_. CreateOk [Some [0x48], Some [0x69]] Exhausted)
        [0x51] (\<lambda>x s. (s, None)) (\<lambda>x s. (s, None)) (\<lambda>x s. (s, None))
        \<lparr>instructions = None, conversationHistory = None\<rparr> None ())"
    by (simp add: calls_of_def createAIStream_def traced_def)
  show ?thesis
    using d empty_response_is_an_error
    [where onChunk = "\<lambda>(x::utf16) (s::unit). (s, None::thrown option)"
       and onError = "\<lambda>(x::string) (s::unit). (s, None::thrown option)"
       and onDone = "\<lambda>(x::utf16) (s::unit). (s, None::thrown option)"
       and ce = "\<lambda>_ s. s" and um = "[0x51]"
       and opts = "\<lparr>instructions = None, conversationHistory = None\<rparr>"
       and s = "()" and ds = "[None, Some [], None]"
       and provider = "\<lambda>_. CreateOk [Some [0x48], Some [0x69]] Exhausted" and ca = None]
    by simp
qed

text \<open>
  C6. Validation precedes every storage access: a body without a non-empty string, a text
  that is empty after trimming, and a text whose trimmed length exceeds 10000 code units
  are answered 400 whatever the database and the provider would do, and nothing but the
  response changes. The limit applies to the trimmed text: a text whose trimmed length is
  between 1 and 10000 is not answered 400.
\<close>

theorem validation_precedes_storage:
  "(body = Missing \<or> body = NotAString \<or> body = Text [] \<longrightarrow>
      post_messages env cid body w =
        (w\<lparr>w_res := send_json 400 (ErrorBody ''Message content is required'') (w_res w)\<rparr>, None))
   \<and> (c \<noteq> [] \<and> trim c = [] \<longrightarrow>
      post_messages env cid (Text c) w =
        (w\<lparr>w_res := send_json 400 (ErrorBody ''Message content cannot be empty'') (w_res w)\<rparr>, None))
   \<and> (10000 < length (trim c) \<longrightarrow>
      post_messages env cid (Text c) w =
        (w\<lparr>w_res := send_json 400 (ErrorBody ''Message too long (max 10000 characters)'') (w_res w)\<rparr>, None))
   \<and> (trim c \<noteq> [] \<and> length (trim c) \<le> 10000 \<and> statusCode (w_res w) = 200 \<longrightarrow>
      statusCode (w_res (fst (post_messages env cid (Text c) w))) \<noteq> 400)"
  using post_messages_rejects(1) [of body env cid w] post_messages_rejects(2) [of c env cid w]
    post_messages_rejects(3) [of c env cid w] post_messages_not_400 [of c w env cid]
  by blast

theorem validation_precedes_storage_witness:
  "[0x20, 0x09] \<noteq> ([] :: utf16) \<and> trim [0x20, 0x09] = []
   \<and> post_messages (sample_env (\<lambda>_. None) (\<lambda>_. CreateThrows NonError)) ''c-1'' (Text [0x20, 0x09]) sample_world =
       (sample_world\<lparr>w_res := send_json 400 (ErrorBody ''Message content cannot be empty'') (w_res sample_world)\<rparr>, None)
   \<and> post_messages (sample_env (\<lambda>_. None) (\<lambda>_. CreateThrows NonError)) ''c-1'' Missing sample_world =
       (sample_world\<lparr>w_res := send_json 400 (ErrorBody ''Message content is required'') (w_res sample_world)\<rparr>, None)
   \<and> 10000 < length (trim (replicate 10001 0x61))
   \<and> post_messages (sample_env (\<lambda>_. None) (\<lambda>_. CreateThrows NonError)) ''c-1'' (Text (replicate 10001 0x61)) sample_world =
       (sample_world\<lparr>w_res := send_json 400 (ErrorBody ''Message too long (max 10000 characters)'') (w_res sample_world)\<rparr>, None)
   \<and> trim (replicate 10000 0x61) \<noteq> [] \<and> length (trim (replicate 10000 0x61)) \<le> 10000
   \<and> statusCode (w_res sample_world) = 200
   \<and> statusCode (w_res (fst (post_messages (sample_env (\<lambda>_. None) (\<lambda>_. CreateThrows NonError)) ''c-1''
        (Text (replicate 10000 0x61)) sample_world))) \<noteq> 400"
proof -
  let ?E = "sample_env (\<lambda>_. None) (\<lambda>_. CreateThrows NonError)"
  have a: "[0x20, 0x09] \<noteq> ([] :: utf16) \<and> trim [0x20, 0x09] = []"
    by (simp add: trim_def is_whitespace_def)
  have b: "10000 < length (trim (replicate 10001 0x61))"
    using trim_replicate [of "0x61" 10001] not_ws_a by simp
  have c: "trim (replicate 10000 0x61) \<noteq> [] \<and> length (trim (replicate 10000 0x61)) \<le> 10000"
    using trim_replicate [of "0x61" 10000] not_ws_a by simp
  have d: "statusCode (w_res sample_world) = 200"
    by (simp add: sample_world_def fresh_response_def)
  show ?thesis
    using a b c d
      validation_precedes_storage [of Missing ?E "''c-1''" sample_world "[0x20, 0x09]"]
      validation_precedes_storage [of Missing ?E "''c-1''" sample_world "replicate 10001 0x61"]
      validation_precedes_storage [of Missing ?E "''c-1''" sample_world "replicate 10000 0x61"]
    by blast
qed

theorem trailing_space_text_accepted_counterexample:
  "length (replicate 10000 (0x61 :: 16 word) @ [0x20]) = 10001
   \<and> statusCode (w_res (fst (post_messages
        (sample_env (\<lambda>_. None) (\<lambda>_. CreateOk [Some [0x4F, 0x4B]] Exhausted)) ''c-1''
        (Text (replicate 10000 0x61 @ [0x20])) sample_world))) = 200
   \<and> events (w_res (fst (post_messages
        (sample_env (\<lambda>_. None) (\<lambda>_. CreateOk [Some [0x4F, 0x4B]] Exhausted)) ''c-1''
        (Text (replicate 10000 0x61 @ [0x20])) sample_world))) =
       [ChunkEvent [0x4F, 0x4B], DoneEvent ''a-1'' [0x4F, 0x4B]]"
proof -
  let ?E = "sample_env (\<lambda>_. None) (\<lambda>_. CreateOk [Some [0x4F, 0x4B]] Exhausted)"
  define long_text :: utf16 where "long_text = replicate 10000 0x61 @ [0x20]"
  have tr: "trim long_text = replicate 10000 0x61"
    unfolding long_text_def using trim_replicate_space [of "0x61" "0x20" 10000] not_ws_a ws_space by simp
  have v: "trim long_text \<noteq> []" "length (trim long_text) \<le> 10000" unfolding tr by simp_all
  have f: "fault ?E SelectConversation = None" "setup_fault ?E = None" "fault ?E UpdateSent = None"
    by (simp_all add: sample_env_def setup_fault_def)
  obtain hist w where pm: "post_messages ?E ''c-1'' (Text long_text) sample_world =
      stream_response ?E (trim long_text) ''a-1'' hist w"
    and w: "events (w_res w) = []" "statusCode (w_res w) = 200"
    using post_messages_sample [OF v f(1,2)] by blast
  have o: "openai ?E (build_messages DEFAULT_INSTRUCTIONS hist (trim long_text)) = CreateOk [Some [0x4F, 0x4B]] Exhausted"
    by (simp add: sample_env_def)
  have "events (w_res (fst (post_messages ?E ''c-1'' (Text long_text) sample_world))) =
      [ChunkEvent [0x4F, 0x4B], DoneEvent ''a-1'' [0x4F, 0x4B]]"
    using done_ok [OF o _ f(3), of "''a-1''" w] w(1) unfolding pm by simp
  moreover have "statusCode (w_res (fst (post_messages ?E ''c-1'' (Text long_text) sample_world))) = 200"
    unfolding pm statusCode_stream_response by (rule w(2))
  moreover have "length long_text = 10001" unfolding long_text_def by simp
  ultimately show ?thesis unfolding long_text_def by (intro conjI)
qed

text \<open>
  C7. PATCH /:id and DELETE /:id test the info object that \<^verbatim>\<open>stmt.run\<close> returns, which is
  always truthy: unless the statement throws, the answer is 200 and its \<^verbatim>\<open>id\<close> is the
  connection's last insert rowid. So an identifier that matches no conversation is
  answered 200, not 404, and an identifier that matches one is not answered with that
  identifier.
\<close>

theorem patch_and_delete_never_answer_404:
  "((\<exists>e. snd (patch_chat env cid new_title d) = Inl e) \<or>
      snd (patch_chat env cid new_title d) =
        Inr (send_json 200 (IdBody (last_insert_rowid d)) fresh_response))
   \<and> ((\<exists>e. snd (delete_chat env cid d) = Inl e) \<or>
      snd (delete_chat env cid d) =
        Inr (send_json 200 (IdBody (last_insert_rowid d)) fresh_response))
   \<and> select_conversation sample_database ''no-such-id'' = Undefined
   \<and> snd (patch_chat (sample_env (\<lambda>_. None) (\<lambda>_. CreateThrows NonError)) ''no-such-id'' ''Renamed'' sample_database) =
       Inr (send_json 200 (IdBody 0) fresh_response)
   \<and> snd (delete_chat (sample_env (\<lambda>_. None) (\<lambda>_. CreateThrows NonError)) ''no-such-id'' sample_database) =
       Inr (send_json 200 (IdBody 0) fresh_response)
   \<and> select_conversation sample_database ''c-1'' = Object ''c-1''
   \<and> snd (patch_chat (sample_env (\<lambda>_. None) (\<lambda>_. CreateThrows NonError)) ''c-1'' ''Renamed'' sample_database) =
       Inr (send_json 200 (IdBody 0) fresh_response)
   \<and> snd (delete_chat (sample_env (\<lambda>_. None) (\<lambda>_. CreateThrows NonError)) ''c-1'' sample_database) =
       Inr (send_json 200 (IdBody 0) fresh_response)"
proof -
  have 1: "(\<exists>e. snd (patch_chat env cid new_title d) = Inl e) \<or>
      snd (patch_chat env cid new_title d) =
        Inr (send_json 200 (IdBody (last_insert_rowid d)) fresh_response)"
    by (cases "fault env UpdateTitle") (simp_all add: patch_chat_def update_conversation_def Let_def)
  have 2: "(\<exists>e. snd (delete_chat env cid d) = Inl e) \<or>
      snd (delete_chat env cid d) =
        Inr (send_json 200 (IdBody (last_insert_rowid d)) fresh_response)"
    by (cases "fault env DeleteConversation") (simp_all add: delete_chat_def delete_conversation_def Let_def)
  have 3: "select_conversation sample_database ''no-such-id'' = Undefined
   \<and> snd (patch_chat (sample_env (\<lambda>_. None) (\<lambda>_. CreateThrows NonError)) ''no-such-id'' ''Renamed'' sample_database) =
       Inr (send_json 200 (IdBody 0) fresh_response)
   \<and> snd (delete_chat (sample_env (\<lambda>_. None) (\<lambda>_. CreateThrows NonError)) ''no-such-id'' sample_database) =
       Inr (send_json 200 (IdBody 0) fresh_response)
   \<and> select_conversation sample_database ''c-1'' = Object ''c-1''
   \<and> snd (patch_chat (sample_env (\<lambda>_. None) (\<lambda>_. CreateThrows NonError)) ''c-1'' ''Renamed'' sample_database) =
       Inr (send_json 200 (IdBody 0) fresh_response)
   \<and> snd (delete_chat (sample_env (\<lambda>_. None) (\<lambda>_. CreateThrows NonError)) ''c-1'' sample_database) =
       Inr (send_json 200 (IdBody 0) fresh_response)"
    by (simp add: patch_chat_def delete_chat_def update_conversation_def delete_conversation_def
        select_conversation_def sample_env_def sample_database_def Let_def)
  show ?thesis using 1 2 3 by (intro conjI) simp_all
qed






text \<open>
  C10. For a valid send whose setup succeeds, with distinct identifiers for the two rows:
  the history the transaction returns is the listing of the conversation without the rows
  that carry the placeholder's identifier, which is the placeholder alone when that
  identifier was not in use before; it contains the turn of the user message as it was
  stored. The provider is asked the prompt made of the system instruction, that history,
  and the trimmed text as the last turn: whatever the provider answers to this very prompt
  decides the events of the response. When the trimmed text is stored unchanged, the
  prompt holds the same user turn twice.
\<close>

theorem prompt_holds_stored_and_sent_user_text:
  "trim c \<noteq> [] \<and> length (trim c) \<le> 10000 \<and> fault env SelectConversation = None \<and>
   select_conversation (w_db w) cid \<noteq> Undefined \<and> setup_fault env = None \<and> uuid1 env \<noteq> uuid2 env \<longrightarrow>
     (let d' = after_setup env cid (trim c) (w_db w);
          listing = select_messages d' cid;
          history = map (\<lambda>m. \<lparr>role = msg_role m, content = msg_content m\<rparr>)
                      (filter (\<lambda>m. msg_id m \<noteq> uuid2 env) listing);
          prompt = \<lparr>role = System, content = DEFAULT_INSTRUCTIONS\<rparr> # history
                     @ [\<lparr>role = User, content = trim c\<rparr>]
      in transaction (setup_body env cid (trim c)) (w_db w) = (d', Inr (uuid2 env, history))
         \<and> (uuid2 env \<notin> msg_id ` set (messages (w_db w)) \<longrightarrow>
              filter (\<lambda>m. msg_id m \<noteq> uuid2 env) listing =
                removeAll (assistant_row env cid (w_db w)) listing)
         \<and> (\<exists>pre post. history = pre @ [\<lparr>role = User, content = store_text (trim c)\<rparr>] @ post)
         \<and> (store_text (trim c) = trim c \<longrightarrow>
              (\<exists>pre post. prompt = \<lparr>role = System, content = DEFAULT_INSTRUCTIONS\<rparr> # pre
                 @ [\<lparr>role = User, content = trim c\<rparr>] @ post @ [\<lparr>role = User, content = trim c\<rparr>]))
         \<and> (\<forall>ds. openai env prompt = CreateOk ds Exhausted \<and> fragments ds \<noteq> [] \<and>
                 fault env UpdateSent = None \<longrightarrow>
               events (w_res (fst (post_messages env cid (Text c) w))) =
                 events (w_res w) @ map ChunkEvent (fragments ds)
                   @ [DoneEvent (uuid2 env) (concat (fragments ds))])
         \<and> (\<forall>e. openai env prompt = CreateThrows e \<and> fault env UpdateFailed = None \<longrightarrow>
               events (w_res (fst (post_messages env cid (Text c) w))) =
                 events (w_res w) @ [ErrorEvent (friendly_message (err_message e))]))"
proof (intro impI, elim conjE)
  assume v: "trim c \<noteq> []" "length (trim c) \<le> 10000" "fault env SelectConversation = None"
    "select_conversation (w_db w) cid \<noteq> Undefined" "setup_fault env = None"
    and ids: "uuid1 env \<noteq> uuid2 env"
  let ?d = "after_setup env cid (trim c) (w_db w)"
  let ?listing = "select_messages ?d cid"
  let ?turn = "\<lambda>m. \<lparr>role = msg_role m, content = msg_content m\<rparr>"
  let ?history = "map ?turn (filter (\<lambda>m. msg_id m \<noteq> uuid2 env) ?listing)"
  let ?prompt = "\<lparr>role = System, content = DEFAULT_INSTRUCTIONS\<rparr> # ?history
      @ [\<lparr>role = User, content = trim c\<rparr>]"
  let ?w = "w\<lparr>w_log := w_log w @ [Info ''Posting new message to conversation''],
               w_db := ?d,
               w_res := (w_res w)\<lparr>headers := headers (w_res w) @ stream_headers\<rparr>\<rparr>"
  have H: "history_of ?d cid (uuid2 env) = ?history"
    by (rule history_of_select_messages)
  have P: "build_messages DEFAULT_INSTRUCTIONS ?history (trim c) = ?prompt"
    by (rule build_messages_history)
  have 1: "transaction (setup_body env cid (trim c)) (w_db w) = (?d, Inr (uuid2 env, ?history))"
    using v(5) H by (simp add: transaction_setup)
  have 2: "uuid2 env \<notin> msg_id ` set (messages (w_db w)) \<longrightarrow>
      filter (\<lambda>m. msg_id m \<noteq> uuid2 env) ?listing = removeAll (assistant_row env cid (w_db w)) ?listing"
  proof
    assume fresh: "uuid2 env \<notin> msg_id ` set (messages (w_db w))"
    have "filter (\<lambda>m. msg_id m \<noteq> uuid2 env) ?listing =
        filter (\<lambda>m. m \<noteq> assistant_row env cid (w_db w)) ?listing"
      by (rule filter_cong [OF refl]) (simp add: placeholder_only_row [OF ids fresh])
    then show "filter (\<lambda>m. msg_id m \<noteq> uuid2 env) ?listing =
        removeAll (assistant_row env cid (w_db w)) ?listing"
      by (simp add: removeAll_filter_not_eq eq_commute)
  qed
  obtain pre post where
    h: "?history = pre @ [\<lparr>role = User, content = store_text (trim c)\<rparr>] @ post"
    using history_after_setup [OF ids, of cid "trim c" "w_db w"] unfolding H by (elim exE)
  have 3: "\<exists>pre post. ?history = pre @ [\<lparr>role = User, content = store_text (trim c)\<rparr>] @ post"
    using h by (intro exI)
  have 4: "store_text (trim c) = trim c \<longrightarrow>
      (\<exists>pre post. ?prompt = \<lparr>role = System, content = DEFAULT_INSTRUCTIONS\<rparr> # pre
         @ [\<lparr>role = User, content = trim c\<rparr>] @ post @ [\<lparr>role = User, content = trim c\<rparr>])"
  proof
    assume "store_text (trim c) = trim c"
    then have "?prompt = \<lparr>role = System, content = DEFAULT_INSTRUCTIONS\<rparr> # pre
         @ [\<lparr>role = User, content = trim c\<rparr>] @ post @ [\<lparr>role = User, content = trim c\<rparr>]"
      by (simp only: h) simp
    then show "\<exists>pre post. ?prompt = \<lparr>role = System, content = DEFAULT_INSTRUCTIONS\<rparr> # pre
         @ [\<lparr>role = User, content = trim c\<rparr>] @ post @ [\<lparr>role = User, content = trim c\<rparr>]"
      by (intro exI)
  qed
  have pm: "post_messages env cid (Text c) w = stream_response env (trim c) (uuid2 env) ?history ?w"
    using v(5) by (simp add: post_messages_valid [OF v(1-4)] H)
  have ev: "events (w_res ?w) = events (w_res w)" by simp
  have 5: "\<forall>ds. openai env ?prompt = CreateOk ds Exhausted \<and> fragments ds \<noteq> [] \<and>
          fault env UpdateSent = None \<longrightarrow>
        events (w_res (fst (post_messages env cid (Text c) w))) =
          events (w_res w) @ map ChunkEvent (fragments ds)
            @ [DoneEvent (uuid2 env) (concat (fragments ds))]"
  proof (intro allI impI, elim conjE)
    fix ds
    assume "openai env ?prompt = CreateOk ds Exhausted" "fragments ds \<noteq> []" "fault env UpdateSent = None"
    then show "events (w_res (fst (post_messages env cid (Text c) w))) =
          events (w_res w) @ map ChunkEvent (fragments ds)
            @ [DoneEvent (uuid2 env) (concat (fragments ds))]"
      unfolding pm using done_ok [of env ?history "trim c" ds "uuid2 env" ?w]
      by (simp add: P)
  qed
  have 6: "\<forall>e. openai env ?prompt = CreateThrows e \<and> fault env UpdateFailed = None \<longrightarrow>
        events (w_res (fst (post_messages env cid (Text c) w))) =
          events (w_res w) @ [ErrorEvent (friendly_message (err_message e))]"
  proof (intro allI impI, elim conjE)
    fix e
    assume "openai env ?prompt = CreateThrows e" "fault env UpdateFailed = None"
    then show "events (w_res (fst (post_messages env cid (Text c) w))) =
          events (w_res w) @ [ErrorEvent (friendly_message (err_message e))]"
      unfolding pm using create_throws_ok [of env ?history "trim c" e "uuid2 env" ?w]
      by (simp add: P)
  qed
  show "let d' = after_setup env cid (trim c) (w_db w);
          listing = select_messages d' cid;
          history = map (\<lambda>m. \<lparr>role = msg_role m, content = msg_content m\<rparr>)
                      (filter (\<lambda>m. msg_id m \<noteq> uuid2 env) listing);
          prompt = \<lparr>role = System, content = DEFAULT_INSTRUCTIONS\<rparr> # history
                     @ [\<lparr>role = User, content = trim c\<rparr>]
      in transaction (setup_body env cid (trim c)) (w_db w) = (d', Inr (uuid2 env, history))
         \<and> (uuid2 env \<notin> msg_id ` set (messages (w_db w)) \<longrightarrow>
              filter (\<lambda>m. msg_id m \<noteq> uuid2 env) listing =
                removeAll (assistant_row env cid (w_db w)) listing)
         \<and> (\<exists>pre post. history = pre @ [\<lparr>role = User, content = store_text (trim c)\<rparr>] @ post)
         \<and> (store_text (trim c) = trim c \<longrightarrow>
              (\<exists>pre post. prompt = \<lparr>role = System, content = DEFAULT_INSTRUCTIONS\<rparr> # pre
                 @ [\<lparr>role = User, content = trim c\<rparr>] @ post @ [\<lparr>role = User, content = trim c\<rparr>]))
         \<and> (\<forall>ds. openai env prompt = CreateOk ds Exhausted \<and> fragments ds \<noteq> [] \<and>
                 fault env UpdateSent = None \<longrightarrow>
               events (w_res (fst (post_messages env cid (Text c) w))) =
                 events (w_res w) @ map ChunkEvent (fragments ds)
                   @ [DoneEvent (uuid2 env) (concat (fragments ds))])
         \<and> (\<forall>e. openai env prompt = CreateThrows e \<and> fault env UpdateFailed = None \<longrightarrow>
               events (w_res (fst (post_messages env cid (Text c) w))) =
                 events (w_res w) @ [ErrorEvent (friendly_message (err_message e))])"
    unfolding Let_def using 1 2 3 4 5 6 by (intro conjI)
qed

theorem prompt_holds_stored_and_sent_user_text_witness:
  "trim [0x48, 0x69] \<noteq> [] \<and> length (trim [0x48, 0x69]) \<le> 10000
   \<and> fault (sample_env (\<lambda>_. None) (\<lambda>p.
          if p = [\<lparr>role = System, content = DEFAULT_INSTRUCTIONS\<rparr>,
                  \<lparr>role = User, content = [0x48, 0x69]\<rparr>, \<lparr>role = User, content = [0x48, 0x69]\<rparr>]
          then CreateOk [Some [0x4F, 0x4B]] Exhausted else CreateThrows NonError)) SelectConversation = None
   \<and> select_conversation (w_db sample_world) ''c-1'' \<noteq> Undefined
   \<and> setup_fault (sample_env (\<lambda>_. None) (\<lambda>p.
          if p = [\<lparr>role = System, content = DEFAULT_INSTRUCTIONS\<rparr>,
                  \<lparr>role = User, content = [0x48, 0x69]\<rparr>, \<lparr>role = User, content = [0x48, 0x69]\<rparr>]
          then CreateOk [Some [0x4F, 0x4B]] Exhausted else CreateThrows NonError)) = None
   \<and> ''u-1'' \<noteq> ''a-1''
   \<and> ''a-1'' \<notin> msg_id ` set (messages (w_db sample_world))
   \<and> store_text (trim [0x48, 0x69]) = trim [0x48, 0x69]
   \<and> snd (transaction (setup_body (sample_env (\<lambda>_. None) (\<lambda>p.
          if p = [\<lparr>role = System, content = DEFAULT_INSTRUCTIONS\<rparr>,
                  \<lparr>role = User, content = [0x48, 0x69]\<rparr>, \<lparr>role = User, content = [0x48, 0x69]\<rparr>]
          then CreateOk [Some [0x4F, 0x4B]] Exhausted else CreateThrows NonError)) ''c-1''
             (trim [0x48, 0x69])) (w_db sample_world)) =
       Inr (''a-1'', [\<lparr>role = User, content = [0x48, 0x69]\<rparr>])
   \<and> events (w_res (fst (post_messages (sample_env (\<lambda>_. None) (\<lambda>p.
          if p = [\<lparr>role = System, content = DEFAULT_INSTRUCTIONS\<rparr>,
                  \<lparr>role = User, content = [0x48, 0x69]\<rparr>, \<lparr>role = User, content = [0x48, 0x69]\<rparr>]
          then CreateOk [Some [0x4F, 0x4B]] Exhausted else CreateThrows NonError)) ''c-1''
             (Text [0x48, 0x69]) sample_world))) =
       [ChunkEvent [0x4F, 0x4B], DoneEvent ''a-1'' [0x4F, 0x4B]]"
proof -
  let ?P = "\<lambda>p. if p = [\<lparr>role = System, content = DEFAULT_INSTRUCTIONS\<rparr>,
                  \<lparr>role = User, content = [0x48, 0x69]\<rparr>, \<lparr>role = User, content = [0x48, 0x69]\<rparr>]
          then CreateOk [Some [0x4F, 0x4B]] Exhausted else CreateThrows NonError"
  let ?E = "sample_env (\<lambda>_. None) ?P"
  let ?u = "user_row ?E ''c-1'' [0x48, 0x69] sample_database"
  let ?a = "assistant_row ?E ''c-1'' sample_database"
  have st: "store_text [0x48, 0x69] = [0x48, 0x69]"
    by (simp add: is_high_surrogate_def is_low_surrogate_def)
  have db: "w_db sample_world = sample_database" by (simp add: sample_world_def)
  have e: "uuid1 ?E = ''u-1''" "uuid2 ?E = ''a-1''" "fault ?E UpdateSent = None" "openai ?E = ?P"
    "events (w_res sample_world) = []"
    by (simp_all add: sample_env_def sample_world_def fresh_response_def)
  have h: "trim [0x48, 0x69] \<noteq> [] \<and> length (trim [0x48, 0x69]) \<le> 10000
      \<and> fault ?E SelectConversation = None
      \<and> select_conversation (w_db sample_world) ''c-1'' \<noteq> Undefined
      \<and> setup_fault ?E = None \<and> uuid1 ?E \<noteq> uuid2 ?E"
    using sample_conversation_exists by (simp add: trim_Hi setup_fault_def sample_env_def)
  have fr: "''a-1'' \<notin> msg_id ` set (messages (w_db sample_world))"
    by (simp add: sample_world_def sample_database_def)
  have hist: "map (\<lambda>m. \<lparr>role = msg_role m, content = msg_content m\<rparr>)
      (filter (\<lambda>m. msg_id m \<noteq> ''a-1'') [?u, ?a]) = [\<lparr>role = User, content = [0x48, 0x69]\<rparr>]"
    by (simp add: user_row_def assistant_row_def sample_env_def is_high_surrogate_def
        is_low_surrogate_def)
  note th = prompt_holds_stored_and_sent_user_text
    [where c = "[0x48, 0x69]" and env = ?E and w = sample_world and cid = "''c-1''",
      unfolded Let_def trim_Hi db sample_listing e(2) hist]
  have 1: "snd (transaction (setup_body ?E ''c-1'' (trim [0x48, 0x69])) (w_db sample_world)) =
       Inr (''a-1'', [\<lparr>role = User, content = [0x48, 0x69]\<rparr>])"
    using th h by (simp add: trim_Hi db e)
  have 2: "events (w_res (fst (post_messages ?E ''c-1'' (Text [0x48, 0x69]) sample_world))) =
       [ChunkEvent [0x4F, 0x4B], DoneEvent ''a-1'' [0x4F, 0x4B]]"
    using th h by (simp add: trim_Hi db e)
  show ?thesis using h fr 1 2
    by (simp add: trim_Hi e is_high_surrogate_def is_low_surrogate_def)
qed

theorem lone_surrogate_stored_differently_counterexample:
  "trim [0xD800] = [0xD800]
   \<and> snd (transaction (setup_body (sample_env (\<lambda>_. None) (\<lambda>p.
          if p = [\<lparr>role = System, content = DEFAULT_INSTRUCTIONS\<rparr>,
                  \<lparr>role = User, content = [0xFFFD]\<rparr>, \<lparr>role = User, content = [0xD800]\<rparr>]
          then CreateOk [Some [0x4F, 0x4B]] Exhausted else CreateThrows NonError)) ''c-1''
             (trim [0xD800])) sample_database) =
       Inr (''a-1'', [\<lparr>role = User, content = [0xFFFD]\<rparr>])
   \<and> events (w_res (fst (post_messages (sample_env (\<lambda>_. None) (\<lambda>p.
          if p = [\<lparr>role = System, content = DEFAULT_INSTRUCTIONS\<rparr>,
                  \<lparr>role = User, content = [0xFFFD]\<rparr>, \<lparr>role = User, content = [0xD800]\<rparr>]
          then CreateOk [Some [0x4F, 0x4B]] Exhausted else CreateThrows NonError)) ''c-1''
             (Text [0xD800]) sample_world))) =
       [ChunkEvent [0x4F, 0x4B], DoneEvent ''a-1'' [0x4F, 0x4B]]
   \<and> length (filter (\<lambda>m. m = \<lparr>role = User, content = [0xD800]\<rparr>)
         [\<lparr>role = System, content = DEFAULT_INSTRUCTIONS\<rparr>,
          \<lparr>role = User, content = [0xFFFD]\<rparr>, \<lparr>role = User, content = [0xD800]\<rparr>]) = 1"
proof -
  let ?P = "\<lambda>p. if p = [\<lparr>role = System, content = DEFAULT_INSTRUCTIONS\<rparr>,
                  \<lparr>role = User, content = [0xFFFD]\<rparr>, \<lparr>role = User, content = [0xD800]\<rparr>]
          then CreateOk [Some [0x4F, 0x4B]] Exhausted else CreateThrows NonError"
  let ?E = "sample_env (\<lambda>_. None) ?P"
  have t: "trim [0xD800] = [0xD800]" by (simp add: trim_def is_whitespace_def)
  have st: "store_text [0xD800] = [0xFFFD]"
    by (simp add: is_high_surrogate_def is_low_surrogate_def)
  have f: "setup_fault ?E = None" "uuid2 ?E = ''a-1''"
    by (simp_all add: setup_fault_def sample_env_def)
  have 1: "snd (transaction (setup_body ?E ''c-1'' (trim [0xD800])) sample_database) =
       Inr (''a-1'', [\<lparr>role = User, content = [0xFFFD]\<rparr>])"
    using f by (simp add: transaction_setup sample_history t is_high_surrogate_def)
  have 2: "events (w_res (fst (post_messages ?E ''c-1'' (Text [0xD800]) sample_world))) =
       [ChunkEvent [0x4F, 0x4B], DoneEvent ''a-1'' [0x4F, 0x4B]]"
    using sample_send_done [of "[0xD800]" ?P "[Some [0x4F, 0x4B]]"]
    by (simp add: t is_high_surrogate_def)
  have 3: "length (filter (\<lambda>m. m = \<lparr>role = User, content = [0xD800]\<rparr>)
         [\<lparr>role = System, content = DEFAULT_INSTRUCTIONS\<rparr>,
          \<lparr>role = User, content = [0xFFFD]\<rparr>, \<lparr>role = User, content = [0xD800]\<rparr>]) = 1"
    by simp
  show ?thesis using t 1 2 3 by (intro conjI)
qed

end
